theory Spec2Isabelle
  imports Complex_Main
begin

section \<open>Conformer generation\<close>

text \<open>
  The script \<^verbatim>\<open>molecular_descriptor_generator.py\<close> drives two external libraries:
  RDKit (hydrogens, 3D embedding, force fields) and mordred (descriptor values). Their
  operations are the fields of two records, so that every statement below holds for any
  behaviour of the libraries. A molecule object has the type \<open>'m\<close>. The embedding is
  stochastic: it reads and advances a random state of type \<open>'s\<close>, which the model threads
  through every call, in the order of the calls of the script.
\<close>

datatype parametros = Basico | ETDG | KDG | ETKDG | ETKDGv2

record ('m, 's) rdkit =
  MolFromSmiles :: "string \<Rightarrow> 'm option"
  AddHs :: "'m \<Rightarrow> 'm"
  EmbedMolecule :: "parametros \<Rightarrow> 's \<Rightarrow> 'm \<Rightarrow> 'm \<times> 's"
  UFFHasAllMoleculeParams :: "'m \<Rightarrow> bool"
  UFFOptimizeMolecule :: "'m \<Rightarrow> 'm"
  MMFFHasAllMoleculeParams :: "'m \<Rightarrow> bool"
  MMFFOptimizeMolecule :: "'m \<Rightarrow> 'm"

text \<open>
  \<^verbatim>\<open>generar_conformacion_uff\<close>: the loop over \<^verbatim>\<open>lista_moleculas\<close> with the accumulator
  \<^verbatim>\<open>moleculas_uff\<close>. \<open>Basico\<close> stands for the call
  \<^verbatim>\<open>EmbedMolecule(mol, useBasicKnowledge=False, useExpTorsionAnglePrefs=False)\<close>.
\<close>

fun uff_bucle :: "('m, 's) rdkit \<Rightarrow> 'm list \<Rightarrow> 's \<Rightarrow> 'm list \<Rightarrow> 'm list \<times> 's" where
  "uff_bucle R moleculas_uff s [] = (moleculas_uff, s)"
| "uff_bucle R moleculas_uff s (molecula # resto) =
     (case EmbedMolecule R Basico s (AddHs R molecula) of
        (mol_con_hidrogenos, s') \<Rightarrow>
          if UFFHasAllMoleculeParams R mol_con_hidrogenos
          then uff_bucle R (moleculas_uff @ [UFFOptimizeMolecule R mol_con_hidrogenos]) s' resto
          else uff_bucle R moleculas_uff s' resto)"

definition generar_conformacion_uff :: "('m, 's) rdkit \<Rightarrow> 's \<Rightarrow> 'm list \<Rightarrow> 'm list \<times> 's" where
  "generar_conformacion_uff R s lista_moleculas = uff_bucle R [] s lista_moleculas"

fun mmff_bucle :: "('m, 's) rdkit \<Rightarrow> 'm list \<Rightarrow> 's \<Rightarrow> 'm list \<Rightarrow> 'm list \<times> 's" where
  "mmff_bucle R moleculas_mmff s [] = (moleculas_mmff, s)"
| "mmff_bucle R moleculas_mmff s (molecula # resto) =
     (case EmbedMolecule R Basico s (AddHs R molecula) of
        (mol_con_hidrogenos, s') \<Rightarrow>
          if MMFFHasAllMoleculeParams R mol_con_hidrogenos
          then mmff_bucle R (moleculas_mmff @ [MMFFOptimizeMolecule R mol_con_hidrogenos]) s' resto
          else mmff_bucle R moleculas_mmff s' resto)"

definition generar_conformacion_mmff :: "('m, 's) rdkit \<Rightarrow> 's \<Rightarrow> 'm list \<Rightarrow> 'm list \<times> 's" where
  "generar_conformacion_mmff R s lista_moleculas = mmff_bucle R [] s lista_moleculas"

text \<open>\<^verbatim>\<open>generar_conformacion_etdg\<close> and \<^verbatim>\<open>generar_conformacion_kdg\<close>: no check, no drop.\<close>

fun embed_bucle :: "('m, 's) rdkit \<Rightarrow> parametros \<Rightarrow> 'm list \<Rightarrow> 's \<Rightarrow> 'm list \<Rightarrow> 'm list \<times> 's" where
  "embed_bucle R p acumuladas s [] = (acumuladas, s)"
| "embed_bucle R p acumuladas s (molecula # resto) =
     (case EmbedMolecule R p s (AddHs R molecula) of
        (mol_con_hidrogenos, s') \<Rightarrow> embed_bucle R p (acumuladas @ [mol_con_hidrogenos]) s' resto)"

definition generar_conformacion_etdg :: "('m, 's) rdkit \<Rightarrow> 's \<Rightarrow> 'm list \<Rightarrow> 'm list \<times> 's" where
  "generar_conformacion_etdg R s lista_moleculas = embed_bucle R ETDG [] s lista_moleculas"

definition generar_conformacion_kdg :: "('m, 's) rdkit \<Rightarrow> 's \<Rightarrow> 'm list \<Rightarrow> 'm list \<times> 's" where
  "generar_conformacion_kdg R s lista_moleculas = embed_bucle R KDG [] s lista_moleculas"

text \<open>
  \<^verbatim>\<open>generar_conformacion_etkdg\<close>: the version is selected inside the loop, once per
  molecule. On any other version the function prints a message and executes
  \<^verbatim>\<open>return None\<close>; the result \<open>None\<close> below is that Python \<^verbatim>\<open>None\<close>, a returned value.
  No statement of the function raises.
\<close>

fun etkdg_bucle :: "('m, 's) rdkit \<Rightarrow> int \<Rightarrow> 'm list \<Rightarrow> 's \<Rightarrow> 'm list \<Rightarrow> 'm list option \<times> 's" where
  "etkdg_bucle R version moleculas_etkdg s [] = (Some moleculas_etkdg, s)"
| "etkdg_bucle R version moleculas_etkdg s (molecula # resto) =
     (if version = 1 then
        (case EmbedMolecule R ETKDG s (AddHs R molecula) of
           (mol_con_hidrogenos, s') \<Rightarrow>
             etkdg_bucle R version (moleculas_etkdg @ [mol_con_hidrogenos]) s' resto)
      else if version = 2 then
        (case EmbedMolecule R ETKDGv2 s (AddHs R molecula) of
           (mol_con_hidrogenos, s') \<Rightarrow>
             etkdg_bucle R version (moleculas_etkdg @ [mol_con_hidrogenos]) s' resto)
      else (None, s))"

definition generar_conformacion_etkdg ::
  "('m, 's) rdkit \<Rightarrow> 's \<Rightarrow> 'm list \<Rightarrow> int \<Rightarrow> 'm list option \<times> 's" where
  "generar_conformacion_etkdg R s lista_moleculas version = etkdg_bucle R version [] s lista_moleculas"

text \<open>
  The molecules of a list after hydrogens and the basic embedding, one per input
  molecule and in input order: what the force-field checks of the UFF and MMFF
  generators are applied to.
\<close>

fun embebidas :: "('m, 's) rdkit \<Rightarrow> parametros \<Rightarrow> 's \<Rightarrow> 'm list \<Rightarrow> 'm list" where
  "embebidas R p s [] = []"
| "embebidas R p s (molecula # resto) =
     (case EmbedMolecule R p s (AddHs R molecula) of
        (mol_con_hidrogenos, s') \<Rightarrow> mol_con_hidrogenos # embebidas R p s' resto)"

section \<open>Tables and the descriptor engine\<close>

text \<open>
  Exceptions are values: a function that can raise returns \<open>error + 'a\<close>, with
  \<open>Inl\<close> the exception. A \<^verbatim>\<open>KeyError\<close> carries the key that was looked up.
\<close>

datatype clave = Entero nat | Cadena string

datatype error = KeyError clave | IndexError | ValueError | ArgumentError | TypeError

text \<open>
  A cell of a table whose content is not known to be numeric: a float, the missing
  value \<^verbatim>\<open>NaN\<close>, or any other object (a string, a boolean, an error object of the
  descriptor engine), kept as the text that \<^verbatim>\<open>str\<close> gives for it. The descriptor
  engine puts an error object of its own in the cell of a descriptor that it could not
  compute, in the tables of 3D descriptors as in the table of 2D descriptors.
\<close>

datatype objeto = Flotante real | NaN | Texto string

text \<open>
  A \<^verbatim>\<open>DataFrame\<close> with the default index \<open>0, 1, 2, \<dots>\<close>: its column labels and its
  rows, each row holding one cell per column.
\<close>

record 'a tabla =
  columnas :: "string list"
  filas :: "'a list list"

definition bien_formada :: "'a tabla \<Rightarrow> bool" where
  "bien_formada t = list_all (\<lambda>f. length f = length (columnas t)) (filas t)"

text \<open>
  \<^verbatim>\<open>pd.concat([a, b], axis=1)\<close> aligns the rows of the two tables on their index: row
  \<open>i\<close> of the result is row \<open>i\<close> of \<open>a\<close> followed by row \<open>i\<close> of \<open>b\<close>, and the
  shorter table is filled with missing cells.
\<close>

definition fila_o_faltante :: "'a \<Rightarrow> 'a tabla \<Rightarrow> nat \<Rightarrow> 'a list" where
  "fila_o_faltante nan t i =
     (if i < length (filas t) then filas t ! i else replicate (length (columnas t)) nan)"

definition concat_columnas :: "'a \<Rightarrow> 'a tabla \<Rightarrow> 'a tabla \<Rightarrow> 'a tabla" where
  "concat_columnas nan a b =
     \<lparr> columnas = columnas a @ columnas b,
       filas = map (\<lambda>i. fila_o_faltante nan a i @ fila_o_faltante nan b i)
                 [0 ..< max (length (filas a)) (length (filas b))] \<rparr>"

definition add_suffix :: "string \<Rightarrow> 'a tabla \<Rightarrow> 'a tabla" where
  "add_suffix sufijo t = \<lparr> columnas = map (\<lambda>c. c @ sufijo) (columnas t), filas = filas t \<rparr>"

text \<open>\<^verbatim>\<open>t.iloc[i]\<close> for \<open>i \<ge> 0\<close>: the row at position \<open>i\<close>, or \<^verbatim>\<open>IndexError\<close>.\<close>

definition iloc :: "'a tabla \<Rightarrow> nat \<Rightarrow> error + 'a list" where
  "iloc t i = (if i < length (filas t) then Inr (filas t ! i) else Inl IndexError)"

text \<open>
  The descriptor engine: the names of the descriptors of
  \<^verbatim>\<open>Calculator(descriptors, ignore_3D=False)\<close> in the engine's order, the value of a
  descriptor on a molecule with 3D coordinates, and the same for
  \<^verbatim>\<open>Calculator(descriptors, ignore_3D=True)\<close> on the molecules without coordinates.
\<close>

record 'm mordred =
  descriptores_motor :: "string list"
  calcula :: "string \<Rightarrow> 'm \<Rightarrow> objeto"
  descriptores_2d :: "string list"
  calcula_2d :: "string \<Rightarrow> 'm \<Rightarrow> objeto"

definition nombres_descriptores_3d :: "string list" where
  "nombres_descriptores_3d = [
    ''PNSA1'', ''PNSA2'', ''PNSA3'', ''PNSA4'', ''PNSA5'', ''PPSA1'', ''PPSA2'', ''PPSA3'',
    ''PPSA4'', ''PPSA5'', ''DPSA1'', ''DPSA2'', ''DPSA3'', ''DPSA4'', ''DPSA5'', ''FNSA1'',
    ''FNSA2'', ''FNSA3'', ''FNSA4'', ''FNSA5'', ''FPSA1'', ''FPSA2'', ''FPSA3'', ''FPSA4'',
    ''FPSA5'', ''WNSA1'', ''WNSA2'', ''WNSA3'', ''WNSA4'', ''WNSA5'', ''WPSA1'', ''WPSA2'',
    ''WPSA3'', ''WPSA4'', ''WPSA5'', ''RNCS'', ''RPCS'', ''TASA'', ''TPSA'', ''RASA'',
    ''RPSA'', ''GeomDiameter'', ''GeomRadius'', ''GeomShapeIndex'', ''GeomPetitjeanIndex'',
    ''GRAV'', ''GRAVH'', ''GRAVp'', ''GRAVHp'', ''Mor01'', ''Mor02'', ''Mor03'', ''Mor04'',
    ''Mor05'', ''Mor06'', ''Mor07'', ''Mor08'', ''Mor09'', ''Mor10'', ''Mor11'', ''Mor12'',
    ''Mor13'', ''Mor14'', ''Mor15'', ''Mor16'', ''Mor17'', ''Mor18'', ''Mor19'', ''Mor20'',
    ''Mor21'', ''Mor22'', ''Mor23'', ''Mor24'', ''Mor25'', ''Mor26'', ''Mor27'', ''Mor28'',
    ''Mor29'', ''Mor30'', ''Mor31'', ''Mor32'', ''Mor01m'', ''Mor02m'', ''Mor03m'',
    ''Mor04m'', ''Mor05m'', ''Mor06m'', ''Mor07m'', ''Mor08m'', ''Mor09m'', ''Mor10m'',
    ''Mor11m'', ''Mor12m'', ''Mor13m'', ''Mor14m'', ''Mor15m'', ''Mor16m'', ''Mor17m'',
    ''Mor18m'', ''Mor19m'', ''Mor20m'', ''Mor21m'', ''Mor22m'', ''Mor23m'', ''Mor24m'',
    ''Mor25m'', ''Mor26m'', ''Mor27m'', ''Mor28m'', ''Mor29m'', ''Mor30m'', ''Mor31m'',
    ''Mor32m'', ''Mor01v'', ''Mor02v'', ''Mor03v'', ''Mor04v'', ''Mor05v'', ''Mor06v'',
    ''Mor07v'', ''Mor08v'', ''Mor09v'', ''Mor10v'', ''Mor11v'', ''Mor12v'', ''Mor13v'',
    ''Mor14v'', ''Mor15v'', ''Mor16v'', ''Mor17v'', ''Mor18v'', ''Mor19v'', ''Mor20v'',
    ''Mor21v'', ''Mor22v'', ''Mor23v'', ''Mor24v'', ''Mor25v'', ''Mor26v'', ''Mor27v'',
    ''Mor28v'', ''Mor29v'', ''Mor30v'', ''Mor31v'', ''Mor32v'', ''Mor01se'', ''Mor02se'',
    ''Mor03se'', ''Mor04se'', ''Mor05se'', ''Mor06se'', ''Mor07se'', ''Mor08se'',
    ''Mor09se'', ''Mor10se'', ''Mor11se'', ''Mor12se'', ''Mor13se'', ''Mor14se'',
    ''Mor15se'', ''Mor16se'', ''Mor17se'', ''Mor18se'', ''Mor19se'', ''Mor20se'',
    ''Mor21se'', ''Mor22se'', ''Mor23se'', ''Mor24se'', ''Mor25se'', ''Mor26se'',
    ''Mor27se'', ''Mor28se'', ''Mor29se'', ''Mor30se'', ''Mor31se'', ''Mor32se'',
    ''Mor01p'', ''Mor02p'', ''Mor03p'', ''Mor04p'', ''Mor05p'', ''Mor06p'', ''Mor07p'',
    ''Mor08p'', ''Mor09p'', ''Mor10p'', ''Mor11p'', ''Mor12p'', ''Mor13p'', ''Mor14p'',
    ''Mor15p'', ''Mor16p'', ''Mor17p'', ''Mor18p'', ''Mor19p'', ''Mor20p'', ''Mor21p'',
    ''Mor22p'', ''Mor23p'', ''Mor24p'', ''Mor25p'', ''Mor26p'', ''Mor27p'', ''Mor28p'',
    ''Mor29p'', ''Mor30p'', ''Mor31p'', ''Mor32p'', ''MOMI-X'', ''MOMI-Y'', ''MOMI-Z'',
    ''PBF'']"

definition descriptores_filtrados :: "'m mordred \<Rightarrow> string list" where
  "descriptores_filtrados M = filter (\<lambda>d. d \<in> set nombres_descriptores_3d) (descriptores_motor M)"

text \<open>\<^verbatim>\<open>calculador_3d.pandas(mols)\<close>: one row per molecule, one column per descriptor.\<close>

definition pandas_3d :: "'m mordred \<Rightarrow> string list \<Rightarrow> 'm list \<Rightarrow> objeto tabla" where
  "pandas_3d M descs mols =
     \<lparr> columnas = descs, filas = map (\<lambda>m. map (\<lambda>d. calcula M d m) descs) mols \<rparr>"

definition pandas_2d :: "'m mordred \<Rightarrow> 'm list \<Rightarrow> objeto tabla" where
  "pandas_2d M mols =
     \<lparr> columnas = descriptores_2d M,
       filas = map (\<lambda>m. map (\<lambda>d. calcula_2d M d m) (descriptores_2d M)) mols \<rparr>"

section \<open>The repetitions\<close>

text \<open>
  The body of the loop over \<^verbatim>\<open>lista_iteraciones\<close>: six generators in the order of the
  script, each followed by the descriptor computation and the concatenation with its
  suffix. \<^verbatim>\<open>calculador_3d.pandas(None)\<close> raises \<^verbatim>\<open>TypeError\<close>.
\<close>

definition calcular_iteracion ::
  "('m, 's) rdkit \<Rightarrow> 'm mordred \<Rightarrow> string list \<Rightarrow> 'm list \<Rightarrow> 's \<Rightarrow> error + (objeto tabla \<times> 's)" where
  "calcular_iteracion R M descs mols s =
     (case generar_conformacion_etkdg R s mols 2 of
        (None, s1) \<Rightarrow> Inl TypeError
      | (Some confs_etkdgv2, s1) \<Rightarrow>
     (case generar_conformacion_etkdg R s1 mols 1 of
        (None, s2) \<Rightarrow> Inl TypeError
      | (Some confs_etkdgv1, s2) \<Rightarrow>
     (case generar_conformacion_etdg R s2 mols of (confs_etdg, s3) \<Rightarrow>
     (case generar_conformacion_kdg R s3 mols of (confs_kdg, s4) \<Rightarrow>
     (case generar_conformacion_uff R s4 mols of (confs_uff, s5) \<Rightarrow>
     (case generar_conformacion_mmff R s5 mols of (confs_mmff, s6) \<Rightarrow>
       Inr (concat_columnas NaN
             (concat_columnas NaN
               (concat_columnas NaN
                 (concat_columnas NaN
                   (concat_columnas NaN
                     (pandas_3d M descs confs_etkdgv2)
                     (add_suffix ''_ETKDG'' (pandas_3d M descs confs_etkdgv1)))
                   (add_suffix ''_ETDG'' (pandas_3d M descs confs_etdg)))
                 (add_suffix ''_KDG'' (pandas_3d M descs confs_kdg)))
               (add_suffix ''_DGuff'' (pandas_3d M descs confs_uff)))
             (add_suffix ''_DGmmff'' (pandas_3d M descs confs_mmff)), s6)))))))"

text \<open>The dictionary \<^verbatim>\<open>resultados_descriptores\<close>, filled in the order of the iterations.\<close>

fun iteraciones_bucle ::
  "('m, 's) rdkit \<Rightarrow> 'm mordred \<Rightarrow> string list \<Rightarrow> 'm list \<Rightarrow> (nat \<rightharpoonup> objeto tabla) \<Rightarrow> 's
     \<Rightarrow> nat list \<Rightarrow> error + ((nat \<rightharpoonup> objeto tabla) \<times> 's)" where
  "iteraciones_bucle R M descs mols resultados s [] = Inr (resultados, s)"
| "iteraciones_bucle R M descs mols resultados s (iteracion # resto) =
     (case calcular_iteracion R M descs mols s of
        Inl e \<Rightarrow> Inl e
      | Inr (t, s') \<Rightarrow> iteraciones_bucle R M descs mols (resultados(iteracion \<mapsto> t)) s' resto)"


text \<open>The column labels of the table of a repetition: per method, the descriptor names
  with the suffix of the method, the methods in the order of the script.\<close>

definition sufijos :: "string list" where
  "sufijos = ['''', ''_ETKDG'', ''_ETDG'', ''_KDG'', ''_DGuff'', ''_DGmmff'']"

definition columnas_iteracion :: "string list \<Rightarrow> string list" where
  "columnas_iteracion descs = concat (map (\<lambda>sufijo. map (\<lambda>d. d @ sufijo) descs) sufijos)"

text \<open>
  Floats are modelled by real numbers, and three operations on floats are parameters,
  their rounding and formatting being outside the model: Python's \<^verbatim>\<open>str\<close> of a float,
  \<^verbatim>\<open>float\<close> of a string (\<open>None\<close> where \<^verbatim>\<open>float\<close> raises \<^verbatim>\<open>ValueError\<close>), and the
  square root that the standard deviation takes. The text of \<^verbatim>\<open>NaN\<close> is \<^verbatim>\<open>nan\<close>.
  A fourth parameter is \<^verbatim>\<open>Series.value_counts\<close> on the cells of a column of objects, the
  values with their frequencies, the most frequent first: it depends on the equality of
  Python objects.
\<close>

record python =
  str_float :: "real \<Rightarrow> string"
  float_str :: "string \<Rightarrow> real option"
  sqrt_float :: "real \<Rightarrow> real"
  value_counts :: "objeto list \<Rightarrow> (objeto \<times> nat) list"

section \<open>The distribution reducer\<close>

text \<open>
  \<^verbatim>\<open>DataFrame.describe()\<close> summarises the numeric columns of a table only: the columns
  none of whose cells is an object other than a float. For such a column it gives, over
  the cells that are not \<^verbatim>\<open>NaN\<close>, the eight entries count, mean, std (sample standard
  deviation, \<^verbatim>\<open>NaN\<close> below two values), min, the quartiles (linear interpolation between
  the two nearest ranks) and max; every entry but the count is \<^verbatim>\<open>NaN\<close> when the column
  has no valid cell. When the table has no numeric column at all, every column is
  summarised as a column of objects, by the four entries count, unique, top and freq. A
  table without columns makes \<^verbatim>\<open>describe\<close> raise \<^verbatim>\<open>ValueError\<close>.
\<close>

fun validos :: "objeto list \<Rightarrow> real list" where
  "validos [] = []"
| "validos (Flotante x # cs) = x # validos cs"
| "validos (NaN # cs) = validos cs"
| "validos (Texto t # cs) = validos cs"

fun es_numero :: "objeto \<Rightarrow> bool" where
  "es_numero (Flotante x) = True"
| "es_numero NaN = True"
| "es_numero (Texto t) = False"

definition es_numerica :: "objeto list \<Rightarrow> bool" where
  "es_numerica celdas = list_all es_numero celdas"

definition objeto_de :: "real option \<Rightarrow> objeto" where
  "objeto_de c = (case c of None \<Rightarrow> NaN | Some x \<Rightarrow> Flotante x)"

definition media :: "real list \<Rightarrow> real option" where
  "media xs = (if xs = [] then None else Some (sum_list xs / real (length xs)))"

definition desviacion :: "python \<Rightarrow> real list \<Rightarrow> real option" where
  "desviacion P xs =
     (if length xs \<le> 1 then None
      else Some (sqrt_float P (sum_list (map (\<lambda>x. (x - sum_list xs / real (length xs))\<^sup>2) xs)
                        / real (length xs - 1))))"

definition minimo :: "real list \<Rightarrow> real option" where
  "minimo xs = (case xs of [] \<Rightarrow> None | x # r \<Rightarrow> Some (fold min r x))"

definition maximo :: "real list \<Rightarrow> real option" where
  "maximo xs = (case xs of [] \<Rightarrow> None | x # r \<Rightarrow> Some (fold max r x))"

text \<open>The quartile \<open>p/4\<close>: position \<open>p (n - 1) / 4\<close> in the sorted values.\<close>

definition cuantil :: "nat \<Rightarrow> real list \<Rightarrow> real option" where
  "cuantil p xs =
     (if xs = [] then None
      else let ys = sort xs; h = p * (length ys - 1); i = h div 4; r = h mod 4
           in Some (if r = 0 then ys ! i
                    else ys ! i + (real r / 4) * (ys ! (i + 1) - ys ! i)))"

definition etiquetas_describe :: "string list" where
  "etiquetas_describe = [''count'', ''mean'', ''std'', ''min'', ''25%'', ''50%'', ''75%'', ''max'']"

definition describe_columna :: "python \<Rightarrow> objeto list \<Rightarrow> objeto list" where
  "describe_columna P celdas =
     (let xs = validos celdas
      in map objeto_de
           [Some (real (length xs)), media xs, desviacion P xs, minimo xs,
            cuantil 1 xs, cuantil 2 xs, cuantil 3 xs, maximo xs])"

definition etiquetas_objetos :: "string list" where
  "etiquetas_objetos = [''count'', ''unique'', ''top'', ''freq'']"

definition describe_objetos :: "python \<Rightarrow> objeto list \<Rightarrow> objeto list" where
  "describe_objetos P celdas =
     (let presentes = filter (\<lambda>c. c \<noteq> NaN) celdas;
          cuentas = value_counts P presentes
      in [Flotante (real (length presentes)), Flotante (real (length cuentas)),
          (case cuentas of [] \<Rightarrow> NaN | (v, n) # resto \<Rightarrow> v),
          (case cuentas of [] \<Rightarrow> NaN | (v, n) # resto \<Rightarrow> Flotante (real n))])"

text \<open>A table with a labelled index, as \<^verbatim>\<open>describe\<close> returns it: \<open>valores\<close> holds one
  row per label of \<open>indice\<close>, each row one cell per label of \<open>nombres\<close>.\<close>

record resumen =
  indice :: "string list"
  nombres :: "string list"
  valores :: "objeto list list"

definition columna_numero :: "'a tabla \<Rightarrow> nat \<Rightarrow> 'a list" where
  "columna_numero t c = map (\<lambda>f. f ! c) (filas t)"

definition columnas_numericas :: "objeto tabla \<Rightarrow> nat list" where
  "columnas_numericas t =
     filter (\<lambda>c. es_numerica (columna_numero t c)) [0 ..< length (columnas t)]"

definition describe :: "python \<Rightarrow> objeto tabla \<Rightarrow> error + resumen" where
  "describe P t =
     (if columnas t = [] then Inl ValueError
      else if columnas_numericas t \<noteq> [] then
        Inr \<lparr> indice = etiquetas_describe,
              nombres = map (\<lambda>c. columnas t ! c) (columnas_numericas t),
              valores = map (\<lambda>r. map (\<lambda>c. describe_columna P (columna_numero t c) ! r)
                                   (columnas_numericas t))
                          [0 ..< length etiquetas_describe] \<rparr>
      else
        Inr \<lparr> indice = etiquetas_objetos, nombres = columnas t,
              valores = map (\<lambda>r. map (\<lambda>c. describe_objetos P (columna_numero t c) ! r)
                                   [0 ..< length (columnas t)])
                          [0 ..< length etiquetas_objetos] \<rparr>)"

text \<open>The row slice \<^verbatim>\<open>d[n:]\<close>.\<close>

definition desde :: "nat \<Rightarrow> resumen \<Rightarrow> resumen" where
  "desde n d = \<lparr> indice = drop n (indice d), nombres = nombres d, valores = drop n (valores d) \<rparr>"

text \<open>A dictionary lookup \<^verbatim>\<open>d[k]\<close> with an integer key.\<close>

definition buscar :: "(nat \<rightharpoonup> 'a) \<Rightarrow> nat \<Rightarrow> error + 'a" where
  "buscar d k = (case d k of None \<Rightarrow> Inl (KeyError (Entero k)) | Some v \<Rightarrow> Inr v)"

text \<open>
  The inner loop over \<^verbatim>\<open>lista_iteraciones\<close>: the row of one molecule index in the table
  of every repetition. Every table of a repetition has the same column labels, so the
  appended rows are aligned by position and \<^verbatim>\<open>valores_molecula\<close> has the column labels
  of the first row appended. A cell keeps what it held in the table of the repetition,
  so a gathered column is numeric when none of the gathered cells is an error object.
\<close>

fun recopilar_bucle ::
  "(nat \<rightharpoonup> objeto tabla) \<Rightarrow> nat \<Rightarrow> objeto list list \<Rightarrow> nat list
     \<Rightarrow> error + objeto list list" where
  "recopilar_bucle resultados indice_molecula acumuladas [] = Inr acumuladas"
| "recopilar_bucle resultados indice_molecula acumuladas (iteracion # resto) =
     (case buscar resultados iteracion of
        Inl e \<Rightarrow> Inl e
      | Inr t \<Rightarrow>
          (case iloc t indice_molecula of
             Inl e \<Rightarrow> Inl e
           | Inr serie_valores \<Rightarrow>
               recopilar_bucle resultados indice_molecula (acumuladas @ [serie_valores]) resto))"

definition valores_molecula ::
  "(nat \<rightharpoonup> objeto tabla) \<Rightarrow> nat list \<Rightarrow> nat \<Rightarrow> error + objeto tabla" where
  "valores_molecula resultados lista_iteraciones indice_molecula =
     (case recopilar_bucle resultados indice_molecula [] lista_iteraciones of
        Inl e \<Rightarrow> Inl e
      | Inr acumuladas \<Rightarrow>
          Inr \<lparr> columnas = (case lista_iteraciones of
                              [] \<Rightarrow> []
                            | iteracion # resto \<Rightarrow>
                                (case resultados iteracion of None \<Rightarrow> [] | Some t \<Rightarrow> columnas t)),
                 filas = acumuladas \<rparr>)"

text \<open>\<^verbatim>\<open>valores_molecula.describe()[3:]\<close>.\<close>

definition estadisticas_molecula ::
  "python \<Rightarrow> (nat \<rightharpoonup> objeto tabla) \<Rightarrow> nat list \<Rightarrow> nat \<Rightarrow> error + resumen" where
  "estadisticas_molecula P resultados lista_iteraciones indice_molecula =
     (case valores_molecula resultados lista_iteraciones indice_molecula of
        Inl e \<Rightarrow> Inl e
      | Inr v \<Rightarrow> (case describe P v of Inl e \<Rightarrow> Inl e | Inr d \<Rightarrow> Inr (desde 3 d)))"

text \<open>The loop that fills the dictionary \<^verbatim>\<open>estadisticas_distribucion\<close>.\<close>

fun analisis_bucle ::
  "python \<Rightarrow> (nat \<rightharpoonup> objeto tabla) \<Rightarrow> nat list \<Rightarrow> (nat \<rightharpoonup> resumen) \<Rightarrow> nat list
     \<Rightarrow> error + (nat \<rightharpoonup> resumen)" where
  "analisis_bucle P resultados lista_iteraciones estadisticas_distribucion [] =
     Inr estadisticas_distribucion"
| "analisis_bucle P resultados lista_iteraciones estadisticas_distribucion (indice_molecula # resto) =
     (case estadisticas_molecula P resultados lista_iteraciones indice_molecula of
        Inl e \<Rightarrow> Inl e
      | Inr est \<Rightarrow>
          analisis_bucle P resultados lista_iteraciones
            (estadisticas_distribucion(indice_molecula \<mapsto> est)) resto)"

section \<open>The feature matrix\<close>

text \<open>The column names: descriptor in the outer loop, statistic in the inner one.\<close>

definition nombres_columnas_finales :: "resumen \<Rightarrow> string list" where
  "nombres_columnas_finales muestra_estadisticas =
     concat (map (\<lambda>indice_descriptor.
                    map (\<lambda>indice_estadistica.
                           indice muestra_estadisticas ! indice_estadistica
                             @ nombres muestra_estadisticas ! indice_descriptor)
                        [0 ..< length (indice muestra_estadisticas)])
                 [0 ..< length (nombres muestra_estadisticas)])"

text \<open>
  \<^verbatim>\<open>est.values.reshape(1, len(est) * len(est.T), order='F')\<close>: the cells in column-major
  order, the first axis (the statistic) varying fastest.
\<close>

definition fila_estadisticas :: "resumen \<Rightarrow> objeto list" where
  "fila_estadisticas est =
     concat (map (\<lambda>c. map (\<lambda>r. valores est ! r ! c) [0 ..< length (indice est)])
                 [0 ..< length (nombres est)])"

text \<open>
  \<^verbatim>\<open>matriz.append(fila, ignore_index=True)\<close> for rows labelled \<open>0, 1, 2, \<dots>\<close>: the
  result has the columns of the wider of the two, the narrower being filled with
  \<^verbatim>\<open>NaN\<close>.
\<close>

definition ancho :: "'a list list \<Rightarrow> nat" where
  "ancho m = (case m of [] \<Rightarrow> 0 | f # resto \<Rightarrow> length f)"

definition rellenar :: "nat \<Rightarrow> objeto list \<Rightarrow> objeto list" where
  "rellenar w f = f @ replicate (w - length f) NaN"

definition anexar_fila :: "objeto list list \<Rightarrow> objeto list \<Rightarrow> objeto list list" where
  "anexar_fila m f =
     (let w = max (ancho m) (length f) in map (rellenar w) m @ [rellenar w f])"

fun matriz_bucle ::
  "python \<Rightarrow> (nat \<rightharpoonup> objeto tabla) \<Rightarrow> nat list \<Rightarrow> objeto list list \<Rightarrow> nat list
     \<Rightarrow> error + objeto list list" where
  "matriz_bucle P resultados lista_iteraciones matriz [] = Inr matriz"
| "matriz_bucle P resultados lista_iteraciones matriz (indice_molecula # resto) =
     (case estadisticas_molecula P resultados lista_iteraciones indice_molecula of
        Inl e \<Rightarrow> Inl e
      | Inr est \<Rightarrow>
          matriz_bucle P resultados lista_iteraciones
            (anexar_fila matriz (fila_estadisticas est)) resto)"

section \<open>Cleaning and export\<close>

definition str_objeto :: "python \<Rightarrow> objeto \<Rightarrow> string" where
  "str_objeto P c = (case c of Flotante x \<Rightarrow> str_float P x | NaN \<Rightarrow> ''nan'' | Texto t \<Rightarrow> t)"

definition mapa_tabla :: "('a \<Rightarrow> 'b) \<Rightarrow> 'a tabla \<Rightarrow> 'b tabla" where
  "mapa_tabla f t = \<lparr> columnas = columnas t, filas = map (map f) (filas t) \<rparr>"

text \<open>\<^verbatim>\<open>matriz_completa_descriptores.astype(str)\<close>.\<close>

definition astype_str :: "python \<Rightarrow> objeto tabla \<Rightarrow> string tabla" where
  "astype_str P t = mapa_tabla (str_objeto P) t"

text \<open>The regular expression \<^verbatim>\<open>[a-zA-Z]\<close> is found in a string that has such a letter.\<close>

definition letras :: "string" where
  "letras = ''abcdefghijklmnopqrstuvwxyzABCDEFGHIJKLMNOPQRSTUVWXYZ''"

definition contiene_letra :: "string \<Rightarrow> bool" where
  "contiene_letra t = list_ex (\<lambda>c. c \<in> set letras) t"

definition mascara_texto :: "string tabla \<Rightarrow> bool tabla" where
  "mascara_texto matriz_limpieza = mapa_tabla contiene_letra matriz_limpieza"

text \<open>
  \<^verbatim>\<open>matriz_limpieza[~mascara_texto]\<close>: indexing a table with a boolean table of the same
  shape keeps the shape and replaces by \<^verbatim>\<open>NaN\<close> the cells where the key is false.
\<close>

definition seleccionar_no_texto :: "string tabla \<Rightarrow> bool tabla \<Rightarrow> string option tabla" where
  "seleccionar_no_texto matriz_limpieza mascara =
     \<lparr> columnas = columnas matriz_limpieza,
       filas = map (\<lambda>(f, m). map (\<lambda>(c, con_texto). if \<not> con_texto then Some c else None) (zip f m))
                 (zip (filas matriz_limpieza) (filas mascara)) \<rparr>"

text \<open>\<^verbatim>\<open>astype(float)\<close>: \<^verbatim>\<open>NaN\<close> stays, a string is converted or raises.\<close>

fun secuencia :: "(error + 'a) list \<Rightarrow> error + 'a list" where
  "secuencia [] = Inr []"
| "secuencia (Inl e # resto) = Inl e"
| "secuencia (Inr x # resto) = (case secuencia resto of Inl e \<Rightarrow> Inl e | Inr xs \<Rightarrow> Inr (x # xs))"

definition float_celda :: "python \<Rightarrow> string option \<Rightarrow> error + real option" where
  "float_celda P c =
     (case c of
        None \<Rightarrow> Inr None
      | Some t \<Rightarrow> (case float_str P t of None \<Rightarrow> Inl ValueError | Some x \<Rightarrow> Inr (Some x)))"

definition astype_float :: "python \<Rightarrow> string option tabla \<Rightarrow> error + real option tabla" where
  "astype_float P t =
     (case secuencia (map (\<lambda>f. secuencia (map (float_celda P) f)) (filas t)) of
        Inl e \<Rightarrow> Inl e
      | Inr fs \<Rightarrow> Inr \<lparr> columnas = columnas t, filas = fs \<rparr>)"

text \<open>\<^verbatim>\<open>fillna("NA")\<close>.\<close>

definition fillna_NA :: "real option tabla \<Rightarrow> objeto tabla" where
  "fillna_NA t = mapa_tabla (\<lambda>c. case c of None \<Rightarrow> Texto ''NA'' | Some x \<Rightarrow> Flotante x) t"

definition limpiar :: "python \<Rightarrow> objeto tabla \<Rightarrow> error + objeto tabla" where
  "limpiar P matriz_completa_descriptores =
     (let matriz_limpieza = astype_str P matriz_completa_descriptores;
          mascara = mascara_texto matriz_limpieza
      in case astype_float P (seleccionar_no_texto matriz_limpieza mascara) of
           Inl e \<Rightarrow> Inl e
         | Inr matriz_numerica \<Rightarrow> Inr (fillna_NA matriz_numerica))"

text \<open>What the five steps of the cleaning do to one cell.\<close>

definition celda_limpia :: "python \<Rightarrow> objeto \<Rightarrow> error + objeto" where
  "celda_limpia P c =
     (if contiene_letra (str_objeto P c) then Inr (Texto ''NA'')
      else (case float_str P (str_objeto P c) of
              None \<Rightarrow> Inl ValueError
            | Some x \<Rightarrow> Inr (Flotante x)))"

section \<open>The script\<close>

text \<open>
  \<^verbatim>\<open>df["SMILES"]\<close>: the cells of the column, or \<^verbatim>\<open>KeyError\<close> when no column has the
  label.
\<close>

fun posicion :: "string \<Rightarrow> string list \<Rightarrow> nat option" where
  "posicion nombre [] = None"
| "posicion nombre (c # cs) =
     (if c = nombre then Some 0 else map_option Suc (posicion nombre cs))"

definition columna :: "'a tabla \<Rightarrow> string \<Rightarrow> error + 'a list" where
  "columna t nombre =
     (case posicion nombre (columnas t) of
        None \<Rightarrow> Inl (KeyError (Cadena nombre))
      | Some j \<Rightarrow> Inr (columna_numero t j))"

text \<open>
  \<^verbatim>\<open>moleculas_base\<close>. \<^verbatim>\<open>Chem.MolFromSmiles\<close> raises \<^verbatim>\<open>TypeError\<close> on an argument that is
  not a string and returns \<^verbatim>\<open>None\<close> for a string it cannot parse; the first generator
  then raises \<^verbatim>\<open>ArgumentError\<close> at \<^verbatim>\<open>Chem.AddHs(None)\<close>, before any table is built. Either
  way the script stops before the generators, which so receive molecule objects only.
\<close>

definition molecula_de :: "('m, 's) rdkit \<Rightarrow> objeto \<Rightarrow> error + 'm" where
  "molecula_de R c =
     (case c of
        Texto smile \<Rightarrow> (case MolFromSmiles R smile of None \<Rightarrow> Inl ArgumentError | Some m \<Rightarrow> Inr m)
      | Flotante x \<Rightarrow> Inl TypeError
      | NaN \<Rightarrow> Inl TypeError)"

definition moleculas_de :: "('m, 's) rdkit \<Rightarrow> objeto list \<Rightarrow> error + 'm list" where
  "moleculas_de R lista_smiles = secuencia (map (molecula_de R) lista_smiles)"

text \<open>The variables of the script that the statements below are about, as they stand
  when the script has run to its end.\<close>

record salida =
  indices_moleculas :: "nat list"
  resultados_descriptores :: "nat \<rightharpoonup> objeto tabla"
  nombres_finales :: "string list"
  matriz_descriptores_estadisticos :: "objeto tabla"
  matriz_completa_descriptores :: "objeto tabla"
  matriz_numerica :: "objeto tabla"
  dataset_final :: "objeto tabla"

text \<open>
  The script from the loaded table \<^verbatim>\<open>df_original\<close> to \<^verbatim>\<open>dataset_final\<close>, statement by
  statement; the prints are left out, except the two that look a dictionary up
  (\<^verbatim>\<open>resultados_descriptores[1]\<close>, \<^verbatim>\<open>estadisticas_distribucion[2]\<close>) and so can raise.
  The number of repetitions is a parameter; the script fixes it to 50. The assignment
  \<^verbatim>\<open>matriz_descriptores_estadisticos.columns = [nombres_columnas_finales]\<close> raises
  \<^verbatim>\<open>ValueError\<close> when the matrix is not as wide as the list of names; it wraps each name
  in a tuple of one element, and the model keeps the name for the label.
\<close>

definition pipeline ::
  "('m, 's) rdkit \<Rightarrow> 'm mordred \<Rightarrow> python \<Rightarrow> nat \<Rightarrow> 's \<Rightarrow> objeto tabla \<Rightarrow> error + salida" where
  "pipeline R M P numero_iteraciones s0 df_original =
     (case columna df_original ''SMILES'' of Inl e \<Rightarrow> Inl e | Inr lista_smiles \<Rightarrow>
     (case moleculas_de R lista_smiles of Inl e \<Rightarrow> Inl e | Inr moleculas_base \<Rightarrow>
     (case generar_conformacion_uff R s0 moleculas_base of (conformaciones_uff, s1) \<Rightarrow>
     (case generar_conformacion_etdg R s1 moleculas_base of (conformaciones_etdg, s2) \<Rightarrow>
     (case generar_conformacion_etkdg R s2 moleculas_base 1 of (conformaciones_etkdgv1, s3) \<Rightarrow>
     (case generar_conformacion_etkdg R s3 moleculas_base 2 of (conformaciones_etkdgv2, s4) \<Rightarrow>
     (let lista_iteraciones = [0 ..< numero_iteraciones];
          indices = [0 ..< length conformaciones_uff];
          descs = descriptores_filtrados M
      in
     (case iteraciones_bucle R M descs moleculas_base Map.empty s4 lista_iteraciones of
        Inl e \<Rightarrow> Inl e | Inr (resultados, s5) \<Rightarrow>
     (case buscar resultados 1 of Inl e \<Rightarrow> Inl e | Inr ejemplo_resultados \<Rightarrow>
     (case analisis_bucle P resultados lista_iteraciones Map.empty indices of
        Inl e \<Rightarrow> Inl e | Inr estadisticas_distribucion \<Rightarrow>
     (case buscar estadisticas_distribucion 2 of Inl e \<Rightarrow> Inl e | Inr ejemplo_estadisticas \<Rightarrow>
     (case buscar estadisticas_distribucion 1 of Inl e \<Rightarrow> Inl e | Inr muestra_estadisticas \<Rightarrow>
     (let nombres_columnas = nombres_columnas_finales muestra_estadisticas
      in
     (case matriz_bucle P resultados lista_iteraciones [] indices of
        Inl e \<Rightarrow> Inl e | Inr matriz \<Rightarrow>
     (if ancho matriz \<noteq> length nombres_columnas then Inl ValueError
      else
     (let estadisticos = \<lparr> columnas = nombres_columnas, filas = matriz \<rparr>;
          matriz_descriptores_2d = pandas_2d M moleculas_base;
          completa = concat_columnas NaN matriz_descriptores_2d estadisticos
      in
     (case limpiar P completa of Inl e \<Rightarrow> Inl e | Inr numerica \<Rightarrow>
        Inr \<lparr> indices_moleculas = indices,
              resultados_descriptores = resultados,
              nombres_finales = nombres_columnas,
              matriz_descriptores_estadisticos = estadisticos,
              matriz_completa_descriptores = completa,
              matriz_numerica = numerica,
              dataset_final = concat_columnas NaN df_original numerica \<rparr>)))))))))))))))))"

definition numero_iteraciones_script :: nat where
  "numero_iteraciones_script = 50"

definition script ::
  "('m, 's) rdkit \<Rightarrow> 'm mordred \<Rightarrow> python \<Rightarrow> 's \<Rightarrow> objeto tabla \<Rightarrow> error + salida" where
  "script R M P s0 df_original = pipeline R M P numero_iteraciones_script s0 df_original"

text \<open>The table of one repetition, from the six lists of conformers.\<close>

definition tabla_metodos ::
  "'m mordred \<Rightarrow> string list \<Rightarrow> 'm list \<Rightarrow> 'm list \<Rightarrow> 'm list \<Rightarrow> 'm list \<Rightarrow> 'm list \<Rightarrow> 'm list
     \<Rightarrow> objeto tabla" where
  "tabla_metodos M descs c2 c1 ce ck cu cm =
     concat_columnas NaN
       (concat_columnas NaN
         (concat_columnas NaN
           (concat_columnas NaN
             (concat_columnas NaN
               (pandas_3d M descs c2)
               (add_suffix ''_ETKDG'' (pandas_3d M descs c1)))
             (add_suffix ''_ETDG'' (pandas_3d M descs ce)))
           (add_suffix ''_KDG'' (pandas_3d M descs ck)))
         (add_suffix ''_DGuff'' (pandas_3d M descs cu)))
       (add_suffix ''_DGmmff'' (pandas_3d M descs cm))"

text \<open>The tables that a repetition can store: the six tables of one pass of the loop
  body, each from its own random state.\<close>

definition tabla_de_iteracion ::
  "('m, 's) rdkit \<Rightarrow> 'm mordred \<Rightarrow> string list \<Rightarrow> 'm list \<Rightarrow> objeto tabla \<Rightarrow> bool" where
  "tabla_de_iteracion R M descs mols t =
     (\<exists>s s1 s2 s3 s4 s5. t =
        tabla_metodos M descs (embebidas R ETKDGv2 s mols) (embebidas R ETKDG s1 mols)
          (embebidas R ETDG s2 mols) (embebidas R KDG s3 mols)
          (fst (generar_conformacion_uff R s4 mols)) (fst (generar_conformacion_mmff R s5 mols)))"

section \<open>An instance of the libraries\<close>

text \<open>A small instance of the libraries, on which the statements are evaluated:
  molecules are numbers, the random state counts the embeddings, the embedding leaves
  the molecule as it is, and molecule 7 lacks force-field parameters.\<close>

definition rdkit_ej :: "(nat, nat) rdkit" where
  "rdkit_ej = \<lparr> MolFromSmiles = (\<lambda>t. if t = [] then None else Some (length t)),
      AddHs = (\<lambda>m. m),
      EmbedMolecule = (\<lambda>p s m. (m, Suc s)),
      UFFHasAllMoleculeParams = (\<lambda>m. m \<noteq> 7),
      UFFOptimizeMolecule = (\<lambda>m. m),
      MMFFHasAllMoleculeParams = (\<lambda>m. m \<noteq> 7),
      MMFFOptimizeMolecule = (\<lambda>m. m) \<rparr>"

text \<open>The engine of the instance knows three descriptors, one of which (TPSA) is on
  the list of 3D descriptors; every 3D value is the number of the molecule. Of its two
  2D descriptors the second is a boolean.\<close>

definition mordred_ej :: "nat mordred" where
  "mordred_ej = \<lparr> descriptores_motor = [''ABC'', ''TPSA'', ''nAtom''],
      calcula = (\<lambda>d m. Flotante (real m)),
      descriptores_2d = [''nAtom'', ''Lipinski''],
      calcula_2d = (\<lambda>d m. if d = ''nAtom'' then Flotante (real m) else Texto ''True'') \<rparr>"

text \<open>The text of the few floats that the instance produces; every other float is
  given a text in exponent notation.\<close>

definition textos_ej :: "(real \<times> string) list" where
  "textos_ej = [(0, ''0.0''), (2, ''2.0''), (3, ''3.0''), (4, ''4.0''), (5, ''5.0''), (7, ''7.0'')]"

definition python_ej :: python where
  "python_ej = \<lparr> str_float = (\<lambda>x. case map_of textos_ej x of Some t \<Rightarrow> t | None \<Rightarrow> ''1e+99''),
       float_str = (\<lambda>t. map_of (map (\<lambda>(x, t). (t, x)) textos_ej) t),
       sqrt_float = (\<lambda>x. x),
       value_counts = (\<lambda>cs. sort_key (\<lambda>(c, n). int (length cs) - int n)
                              (map (\<lambda>c. (c, count_list cs c)) (rev (remdups (rev cs))))) \<rparr>"

text \<open>An input table of four molecules, the second of which (7 atoms) lacks force-field
  parameters, with a column of notes that has a missing cell.\<close>

definition df_ej :: "objeto tabla" where
  "df_ej = \<lparr> columnas = [''SMILES'', ''nota''],
     filas = [[Texto ''CCO'', Texto ''a''], [Texto ''CCCCCCC'', NaN],
              [Texto ''CCCCC'', Flotante 2], [Texto ''CCCC'', Flotante 0]] \<rparr>"

text \<open>An input table of three molecules, two of which have force-field parameters.\<close>

definition df_dos :: "objeto tabla" where
  "df_dos = \<lparr> columnas = [''SMILES''],
     filas = [[Texto ''CCO''], [Texto ''CCCCCCC''], [Texto ''CCCCC'']] \<rparr>"


text \<open>An engine with two 3D descriptors, which cannot compute the first of them for
  the molecule of four atoms and gives 0 for the second, and an input table of three
  molecules that all have force-field parameters.\<close>

definition mordred_err :: "nat mordred" where
  "mordred_err = \<lparr> descriptores_motor = [''TPSA'', ''PBF''],
      calcula = (\<lambda>d m. if d = ''TPSA''
                         then (if m = 4 then Texto ''missing 3D coordinate'' else Flotante (real m))
                         else Flotante 0),
      descriptores_2d = [''nAtom''],
      calcula_2d = (\<lambda>d m. Flotante (real m)) \<rparr>"

definition df_tres :: "objeto tabla" where
  "df_tres = \<lparr> columnas = [''SMILES''],
     filas = [[Texto ''CCO''], [Texto ''CCCCC''], [Texto ''CCCC'']] \<rparr>"

text \<open>The same three molecules with the second and the third exchanged.\<close>

definition df_tres_b :: "objeto tabla" where
  "df_tres_b = \<lparr> columnas = [''SMILES''],
     filas = [[Texto ''CCO''], [Texto ''CCCC''], [Texto ''CCCCC'']] \<rparr>"

section \<open>Properties of the conformer generators\<close>

lemma length_embebidas: "length (embebidas R p s ms) = length ms"
  by (induction ms arbitrary: s) (auto split: prod.splits)

lemma uff_bucle_filter:
  "fst (uff_bucle R acc s ms) =
     acc @ map (UFFOptimizeMolecule R) (filter (UFFHasAllMoleculeParams R) (embebidas R Basico s ms))"
  by (induction ms arbitrary: acc s) (auto split: prod.splits)

lemma mmff_bucle_filter:
  "fst (mmff_bucle R acc s ms) =
     acc @ map (MMFFOptimizeMolecule R) (filter (MMFFHasAllMoleculeParams R) (embebidas R Basico s ms))"
  by (induction ms arbitrary: acc s) (auto split: prod.splits)

lemma embed_bucle_all: "fst (embed_bucle R p acc s ms) = acc @ embebidas R p s ms"
  by (induction ms arbitrary: acc s) (auto split: prod.splits)

lemma etkdg_bucle_1: "fst (etkdg_bucle R 1 acc s ms) = Some (acc @ embebidas R ETKDG s ms)"
  by (induction ms arbitrary: acc s) (auto split: prod.splits)

lemma etkdg_bucle_2: "fst (etkdg_bucle R 2 acc s ms) = Some (acc @ embebidas R ETKDGv2 s ms)"
  by (induction ms arbitrary: acc s) (auto split: prod.splits)

text \<open>
  C6. The UFF and the MMFF generator return, in input order, the optimised molecules
  that passed the parameter check of their force field: the result is the filter of the
  embedded input list, nothing stands in for a molecule that failed, and the result is
  at most as long as the input.
\<close>

theorem generar_conformacion_ff_filtra:
  "fst (generar_conformacion_uff R s ms) =
     map (UFFOptimizeMolecule R) (filter (UFFHasAllMoleculeParams R) (embebidas R Basico s ms))
   \<and> fst (generar_conformacion_mmff R s ms) =
     map (MMFFOptimizeMolecule R) (filter (MMFFHasAllMoleculeParams R) (embebidas R Basico s ms))
   \<and> length (embebidas R Basico s ms) = length ms
   \<and> length (fst (generar_conformacion_uff R s ms)) \<le> length ms
   \<and> length (fst (generar_conformacion_mmff R s ms)) \<le> length ms"
proof -
  have u: "fst (generar_conformacion_uff R s ms) =
     map (UFFOptimizeMolecule R) (filter (UFFHasAllMoleculeParams R) (embebidas R Basico s ms))"
    by (simp add: generar_conformacion_uff_def uff_bucle_filter)
  have m: "fst (generar_conformacion_mmff R s ms) =
     map (MMFFOptimizeMolecule R) (filter (MMFFHasAllMoleculeParams R) (embebidas R Basico s ms))"
    by (simp add: generar_conformacion_mmff_def mmff_bucle_filter)
  have l: "length (embebidas R Basico s ms) = length ms"
    by (rule length_embebidas)
  have lu: "length (fst (generar_conformacion_uff R s ms)) \<le> length ms"
    unfolding u using length_filter_le [of "UFFHasAllMoleculeParams R" "embebidas R Basico s ms"]
    by (simp add: l)
  have lm: "length (fst (generar_conformacion_mmff R s ms)) \<le> length ms"
    unfolding m using length_filter_le [of "MMFFHasAllMoleculeParams R" "embebidas R Basico s ms"]
    by (simp add: l)
  from u m l lu lm show ?thesis by blast
qed

theorem generar_conformacion_ff_filtra_witness:
  "fst (generar_conformacion_uff rdkit_ej 0 [3, 7, 5]) = [3, 5]
   \<and> fst (generar_conformacion_mmff rdkit_ej 0 [3, 7, 5]) = [3, 5]
   \<and> embebidas rdkit_ej Basico 0 [3, 7, 5] = [3, 7, 5]"
proof -
  have e: "embebidas rdkit_ej Basico 0 [3, 7, 5] = [3, 7, 5]"
    by (simp add: rdkit_ej_def)
  show ?thesis
    using generar_conformacion_ff_filtra [of rdkit_ej 0 "[3, 7, 5]"] unfolding e
    by (simp add: rdkit_ej_def)
qed

text \<open>
  C9, as the code has it. A version other than 1 and 2 raises nothing: on a list with
  at least one molecule the generator returns \<^verbatim>\<open>None\<close> at the first molecule, before any
  embedding (the random state is unchanged); on the empty list the loop body, and with
  it the check of the version, is never reached and the generator returns the empty
  list, as it does for a valid version.
\<close>

theorem generar_conformacion_etkdg_version_invalida:
  "version \<noteq> 1 \<Longrightarrow> version \<noteq> 2 \<Longrightarrow>
     generar_conformacion_etkdg R s ms version = (if ms = [] then Some [] else None, s)"
  by (cases ms) (simp_all add: generar_conformacion_etkdg_def)

theorem generar_conformacion_etkdg_version_invalida_witness:
  "(3::int) \<noteq> 1 \<and> (3::int) \<noteq> 2
   \<and> generar_conformacion_etkdg rdkit_ej 0 [3, 7, 5] 3 = (None, 0)"
  using generar_conformacion_etkdg_version_invalida [of 3 rdkit_ej 0 "[3, 7, 5]"] by simp

text \<open>
  The claim C9 as stated fails: with the invalid version 3 the generator returns
  normally, the empty list on no molecules and \<^verbatim>\<open>None\<close> otherwise.
\<close>

theorem generar_conformacion_etkdg_no_fatal:
  "generar_conformacion_etkdg rdkit_ej 0 [] 3 = (Some [], 0)
   \<and> generar_conformacion_etkdg rdkit_ej 0 [3, 7, 5] 3 = (None, 0)"
  by (simp add: generar_conformacion_etkdg_def)

section \<open>Properties of the repetitions\<close>

lemma columnas_concat [simp]: "columnas (concat_columnas n a b) = columnas a @ columnas b"
  by (simp add: concat_columnas_def)

lemma length_filas_concat [simp]:
  "length (filas (concat_columnas n a b)) = max (length (filas a)) (length (filas b))"
  by (simp add: concat_columnas_def)

lemma columnas_add_suffix [simp]: "columnas (add_suffix x t) = map (\<lambda>c. c @ x) (columnas t)"
  by (simp add: add_suffix_def)

lemma filas_add_suffix [simp]: "filas (add_suffix x t) = filas t"
  by (simp add: add_suffix_def)

lemma columnas_pandas_3d [simp]: "columnas (pandas_3d M descs mols) = descs"
  by (simp add: pandas_3d_def)

lemma length_filas_pandas_3d [simp]: "length (filas (pandas_3d M descs mols)) = length mols"
  by (simp add: pandas_3d_def)

lemma bien_formada_pandas_3d: "bien_formada (pandas_3d M descs mols)"
  by (simp add: bien_formada_def pandas_3d_def list_all_iff)

lemma bien_formada_add_suffix: "bien_formada t \<Longrightarrow> bien_formada (add_suffix x t)"
  by (simp add: bien_formada_def)

lemma length_fila_o_faltante:
  "bien_formada t \<Longrightarrow> length (fila_o_faltante n t i) = length (columnas t)"
  by (auto simp: fila_o_faltante_def bien_formada_def list_all_iff)

lemma bien_formada_concat:
  "bien_formada a \<Longrightarrow> bien_formada b \<Longrightarrow> bien_formada (concat_columnas n a b)"
proof -
  assume a: "bien_formada a" and b: "bien_formada b"
  have "length (fila_o_faltante n a i @ fila_o_faltante n b i) = length (columnas a @ columnas b)" for i
    by (simp add: length_fila_o_faltante a b)
  then show ?thesis
    by (simp add: bien_formada_def concat_columnas_def list_all_iff)
qed

lemma columnas_tabla_metodos:
  "columnas (tabla_metodos M descs c2 c1 ce ck cu cm) = columnas_iteracion descs"
  by (simp add: tabla_metodos_def columnas_iteracion_def sufijos_def)

lemma bien_formada_tabla_metodos: "bien_formada (tabla_metodos M descs c2 c1 ce ck cu cm)"
  unfolding tabla_metodos_def
  by (intro bien_formada_concat bien_formada_add_suffix bien_formada_pandas_3d)

lemma length_filas_tabla_metodos:
  "length (filas (tabla_metodos M descs c2 c1 ce ck cu cm)) =
     max (max (max (max (max (length c2) (length c1)) (length ce)) (length ck)) (length cu)) (length cm)"
  by (simp add: tabla_metodos_def)

lemma generar_etkdg_2:
  "\<exists>s'. generar_conformacion_etkdg R s mols 2 = (Some (embebidas R ETKDGv2 s mols), s')"
  using etkdg_bucle_2 [of R "[]" s mols]
  by (cases "etkdg_bucle R 2 [] s mols") (simp add: generar_conformacion_etkdg_def)

lemma generar_etkdg_1:
  "\<exists>s'. generar_conformacion_etkdg R s mols 1 = (Some (embebidas R ETKDG s mols), s')"
  using etkdg_bucle_1 [of R "[]" s mols]
  by (cases "etkdg_bucle R 1 [] s mols") (simp add: generar_conformacion_etkdg_def)

lemma generar_etdg:
  "\<exists>s'. generar_conformacion_etdg R s mols = (embebidas R ETDG s mols, s')"
  using embed_bucle_all [of R ETDG "[]" s mols]
  by (cases "embed_bucle R ETDG [] s mols") (simp add: generar_conformacion_etdg_def)

lemma generar_kdg:
  "\<exists>s'. generar_conformacion_kdg R s mols = (embebidas R KDG s mols, s')"
  using embed_bucle_all [of R KDG "[]" s mols]
  by (cases "embed_bucle R KDG [] s mols") (simp add: generar_conformacion_kdg_def)

lemma calcular_iteracion_tabla:
  "\<exists>s1 s2 s3 s4 s5 s'. calcular_iteracion R M descs mols s =
     Inr (tabla_metodos M descs (embebidas R ETKDGv2 s mols) (embebidas R ETKDG s1 mols)
            (embebidas R ETDG s2 mols) (embebidas R KDG s3 mols)
            (fst (generar_conformacion_uff R s4 mols)) (fst (generar_conformacion_mmff R s5 mols)), s')"
proof -
  obtain s1 where a: "generar_conformacion_etkdg R s mols 2 = (Some (embebidas R ETKDGv2 s mols), s1)"
    using generar_etkdg_2 [of R s mols] by auto
  obtain s2 where b: "generar_conformacion_etkdg R s1 mols 1 = (Some (embebidas R ETKDG s1 mols), s2)"
    using generar_etkdg_1 [of R s1 mols] by auto
  obtain s3 where c: "generar_conformacion_etdg R s2 mols = (embebidas R ETDG s2 mols, s3)"
    using generar_etdg [of R s2 mols] by auto
  obtain s4 where d: "generar_conformacion_kdg R s3 mols = (embebidas R KDG s3 mols, s4)"
    using generar_kdg [of R s3 mols] by auto
  obtain cu s5 where e: "generar_conformacion_uff R s4 mols = (cu, s5)"
    by (cases "generar_conformacion_uff R s4 mols")
  obtain cm s6 where f: "generar_conformacion_mmff R s5 mols = (cm, s6)"
    by (cases "generar_conformacion_mmff R s5 mols")
  have "calcular_iteracion R M descs mols s =
     Inr (tabla_metodos M descs (embebidas R ETKDGv2 s mols) (embebidas R ETKDG s1 mols)
            (embebidas R ETDG s2 mols) (embebidas R KDG s3 mols)
            (fst (generar_conformacion_uff R s4 mols)) (fst (generar_conformacion_mmff R s5 mols)), s6)"
    by (simp add: calcular_iteracion_def a b c d e f tabla_metodos_def)
  then show ?thesis by blast
qed

lemma calcular_iteracion_Inr:
  "\<exists>t s'. calcular_iteracion R M descs mols s = Inr (t, s') \<and> tabla_de_iteracion R M descs mols t"
  using calcular_iteracion_tabla [of R M descs mols s] unfolding tabla_de_iteracion_def by blast

lemma iteraciones_bucle_Inr:
  "\<exists>res' s'. iteraciones_bucle R M descs mols res s its = Inr (res', s')
     \<and> (\<forall>i. i \<notin> set its \<longrightarrow> res' i = res i)
     \<and> (\<forall>i\<in>set its. \<exists>t. res' i = Some t \<and> tabla_de_iteracion R M descs mols t)"
proof (induction its arbitrary: res s)
  case Nil
  then show ?case by simp
next
  case (Cons it its)
  obtain t s1 where t: "calcular_iteracion R M descs mols s = Inr (t, s1)"
    and tt: "tabla_de_iteracion R M descs mols t"
    using calcular_iteracion_Inr [of R M descs mols s] by blast
  obtain res' s' where r: "iteraciones_bucle R M descs mols (res(it \<mapsto> t)) s1 its = Inr (res', s')"
    and keep: "\<forall>i. i \<notin> set its \<longrightarrow> res' i = (res(it \<mapsto> t)) i"
    and new: "\<forall>i\<in>set its. \<exists>t. res' i = Some t \<and> tabla_de_iteracion R M descs mols t"
    using Cons.IH [of "res(it \<mapsto> t)" s1] by blast
  have 1: "iteraciones_bucle R M descs mols res s (it # its) = Inr (res', s')"
    by (simp add: t r)
  have 2: "\<forall>i. i \<notin> set (it # its) \<longrightarrow> res' i = res i"
    using keep by auto
  have 3: "\<forall>i\<in>set (it # its). \<exists>t. res' i = Some t \<and> tabla_de_iteracion R M descs mols t"
  proof
    fix i assume "i \<in> set (it # its)"
    show "\<exists>t. res' i = Some t \<and> tabla_de_iteracion R M descs mols t"
    proof (cases "i \<in> set its")
      case True
      then show ?thesis using new by blast
    next
      case False
      with \<open>i \<in> set (it # its)\<close> have "i = it" by simp
      with False keep have "res' i = Some t" by simp
      with tt show ?thesis by blast
    qed
  qed
  from 1 2 3 show ?case by blast
qed




section \<open>Properties of the distribution reducer\<close>


lemma recopilar_bucle_ok:
  "(\<forall>it\<in>set its. \<exists>t. res it = Some t \<and> i < length (filas t)) \<Longrightarrow>
     recopilar_bucle res i acc its = Inr (acc @ map (\<lambda>it. filas (the (res it)) ! i) its)"
proof (induction its arbitrary: acc)
  case Nil
  then show ?case by simp
next
  case (Cons it its)
  from Cons.prems obtain t where t: "res it = Some t" and i: "i < length (filas t)"
    by auto
  from Cons.prems have "\<forall>it\<in>set its. \<exists>t. res it = Some t \<and> i < length (filas t)"
    by simp
  from Cons.IH [OF this, of "acc @ [filas t ! i]"] t i show ?case
    by (simp add: buscar_def iloc_def)
qed


lemma length_describe_columna: "length (describe_columna P cs) = 8"
  by (simp add: describe_columna_def Let_def)








lemma describe_Inr: "columnas v \<noteq> [] \<Longrightarrow> \<exists>d. describe P v = Inr d"
  by (simp add: describe_def)





lemma length_generar_uff: "length (fst (generar_conformacion_uff R s ms)) \<le> length ms"
  using length_filter_le [of "UFFHasAllMoleculeParams R" "embebidas R Basico s ms"]
  by (simp add: generar_conformacion_uff_def uff_bucle_filter length_embebidas)

lemma length_generar_mmff: "length (fst (generar_conformacion_mmff R s ms)) \<le> length ms"
  using length_filter_le [of "MMFFHasAllMoleculeParams R" "embebidas R Basico s ms"]
  by (simp add: generar_conformacion_mmff_def mmff_bucle_filter length_embebidas)

lemma tabla_de_iteracion_forma:
  assumes "tabla_de_iteracion R M descs mols t"
  shows "columnas t = columnas_iteracion descs"
    and "length (filas t) = length mols"
    and "bien_formada t"
proof -
  from assms obtain s s1 s2 s3 s4 s5 where t: "t =
        tabla_metodos M descs (embebidas R ETKDGv2 s mols) (embebidas R ETKDG s1 mols)
          (embebidas R ETDG s2 mols) (embebidas R KDG s3 mols)
          (fst (generar_conformacion_uff R s4 mols)) (fst (generar_conformacion_mmff R s5 mols))"
    unfolding tabla_de_iteracion_def by blast
  show "columnas t = columnas_iteracion descs"
    unfolding t by (rule columnas_tabla_metodos)
  show "bien_formada t"
    unfolding t by (rule bien_formada_tabla_metodos)
  show "length (filas t) = length mols"
    unfolding t length_filas_tabla_metodos length_embebidas
    using length_generar_uff [of R s4 mols] length_generar_mmff [of R s5 mols] by simp
qed


lemma columnas_iteracion_Nil: "descs \<noteq> [] \<Longrightarrow> columnas_iteracion descs \<noteq> []"
  by (simp add: columnas_iteracion_def sufijos_def)

lemma valores_molecula_ok:
  assumes t: "\<forall>it<N. \<exists>t. res it = Some t \<and> tabla_de_iteracion R M descs mols t"
    and i: "i < length mols" and N: "0 < N"
  shows "\<exists>v. valores_molecula res [0 ..< N] i = Inr v \<and> columnas v = columnas_iteracion descs
           \<and> length (filas v) = N"
proof -
  have a: "\<forall>it\<in>set [0 ..< N]. \<exists>t. res it = Some t \<and> i < length (filas t)"
    using t i tabla_de_iteracion_forma(2) by fastforce
  obtain resto where u: "[0 ..< N] = 0 # resto"
    using N by (auto simp: upt_conv_Cons)
  from t N obtain t0 where t0: "res 0 = Some t0" and "tabla_de_iteracion R M descs mols t0"
    by blast
  then have c: "columnas t0 = columnas_iteracion descs"
    using tabla_de_iteracion_forma(1) by blast
  have "valores_molecula res [0 ..< N] i =
      Inr \<lparr> columnas = columnas_iteracion descs, filas = map (\<lambda>it. filas (the (res it)) ! i) [0 ..< N] \<rparr>"
    unfolding valores_molecula_def recopilar_bucle_ok [OF a]
    by (simp add: u t0 c)
  then show ?thesis by simp
qed

lemma columnas_numericas_lt:
  "k < length (columnas_numericas v) \<Longrightarrow> columnas_numericas v ! k < length (columnas v)"
proof -
  assume "k < length (columnas_numericas v)"
  then have "columnas_numericas v ! k \<in> set (columnas_numericas v)"
    by simp
  then show ?thesis
    by (simp add: columnas_numericas_def)
qed





section \<open>Properties of the script\<close>

lemma pipeline_Inr:
  assumes "pipeline R M P N s0 df = Inr out"
  obtains cells mols s4 res s5 estd ej muestra matriz numerica where
    "columna df ''SMILES'' = Inr cells"
    "moleculas_de R cells = Inr mols"
    "iteraciones_bucle R M (descriptores_filtrados M) mols Map.empty s4 [0 ..< N] = Inr (res, s5)"
    "buscar res 1 = Inr ej"
    "analisis_bucle P res [0 ..< N] Map.empty [0 ..< length (fst (generar_conformacion_uff R s0 mols))] = Inr estd"
    "estd 2 \<noteq> None"
    "estd 1 = Some muestra"
    "matriz_bucle P res [0 ..< N] [] [0 ..< length (fst (generar_conformacion_uff R s0 mols))] = Inr matriz"
    "ancho matriz = length (nombres_columnas_finales muestra)"
    "limpiar P (concat_columnas NaN (pandas_2d M mols)
        \<lparr> columnas = nombres_columnas_finales muestra, filas = matriz \<rparr>) = Inr numerica"
    "out = \<lparr> indices_moleculas = [0 ..< length (fst (generar_conformacion_uff R s0 mols))],
              resultados_descriptores = res,
              nombres_finales = nombres_columnas_finales muestra,
              matriz_descriptores_estadisticos = \<lparr> columnas = nombres_columnas_finales muestra, filas = matriz \<rparr>,
              matriz_completa_descriptores = concat_columnas NaN (pandas_2d M mols)
                \<lparr> columnas = nombres_columnas_finales muestra, filas = matriz \<rparr>,
              matriz_numerica = numerica,
              dataset_final = concat_columnas NaN df numerica \<rparr>"
  using assms unfolding pipeline_def Let_def buscar_def
  by (auto split: sum.splits prod.splits if_splits option.splits)


lemma analisis_bucle_Inr:
  "analisis_bucle P res its estd is = Inr estd' \<Longrightarrow>
     (\<forall>i. i \<notin> set is \<longrightarrow> estd' i = estd i)
     \<and> (\<forall>i\<in>set is. \<exists>est. estd' i = Some est \<and> estadisticas_molecula P res its i = Inr est)"
proof (induction "is" arbitrary: estd)
  case Nil
  then show ?case by simp
next
  case (Cons i "is")
  from Cons.prems obtain est where e: "estadisticas_molecula P res its i = Inr est"
    by (auto split: sum.splits)
  with Cons.prems have r: "analisis_bucle P res its (estd(i \<mapsto> est)) is = Inr estd'"
    by simp
  note ih = Cons.IH [OF r]
  have 1: "\<forall>j. j \<notin> set (i # is) \<longrightarrow> estd' j = estd j"
    using ih by auto
  have 2: "\<exists>est. estd' j = Some est \<and> estadisticas_molecula P res its j = Inr est"
    if "j \<in> set (i # is)" for j
  proof (cases "j \<in> set is")
    case True
    then show ?thesis using ih by blast
  next
    case False
    with that have "j = i" by simp
    with False ih e show ?thesis by simp
  qed
  from 1 2 show ?case by blast
qed

lemma analisis_bucle_ok:
  "(\<forall>i\<in>set is. \<exists>est. estadisticas_molecula P res its i = Inr est) \<Longrightarrow>
     \<exists>estd'. analisis_bucle P res its estd is = Inr estd'"
proof (induction "is" arbitrary: estd)
  case Nil
  then show ?case by simp
next
  case (Cons i "is")
  from Cons.prems obtain est where e: "estadisticas_molecula P res its i = Inr est"
    by auto
  from Cons.prems have "\<forall>i\<in>set is. \<exists>est. estadisticas_molecula P res its i = Inr est"
    by simp
  from Cons.IH [OF this] obtain estd' where
    "analisis_bucle P res its (estd(i \<mapsto> est)) is = Inr estd'"
    by blast
  with e show ?case by simp
qed

lemma estadisticas_molecula_ok:
  assumes t: "\<forall>it<N. \<exists>t. res it = Some t \<and> tabla_de_iteracion R M descs mols t"
    and i: "i < length mols" and N: "0 < N" and d: "descs \<noteq> []"
  shows "\<exists>est. estadisticas_molecula P res [0 ..< N] i = Inr est"
proof -
  from valores_molecula_ok [OF t i N] obtain v where
    v: "valores_molecula res [0 ..< N] i = Inr v" and c: "columnas v = columnas_iteracion descs"
    by blast
  from c d have "columnas v \<noteq> []"
    by (simp add: columnas_iteracion_Nil)
  from describe_Inr [OF this] obtain e where "describe P v = Inr e"
    by blast
  with v show ?thesis
    by (simp add: estadisticas_molecula_def)
qed

lemma pipeline_menos_de_tres:
  assumes c: "columna df ''SMILES'' = Inr cells" and m: "moleculas_de R cells = Inr mols"
    and k: "length (fst (generar_conformacion_uff R s0 mols)) < 3"
    and N: "2 \<le> N" and d: "descriptores_filtrados M \<noteq> []"
  shows "pipeline R M P N s0 df = Inl (KeyError (Entero 2))"
proof -
  obtain cu s1 where g1: "generar_conformacion_uff R s0 mols = (cu, s1)"
    by (cases "generar_conformacion_uff R s0 mols")
  obtain ce s2 where g2: "generar_conformacion_etdg R s1 mols = (ce, s2)"
    by (cases "generar_conformacion_etdg R s1 mols")
  obtain c1 s3 where g3: "generar_conformacion_etkdg R s2 mols 1 = (c1, s3)"
    by (cases "generar_conformacion_etkdg R s2 mols 1")
  obtain c2 s4 where g4: "generar_conformacion_etkdg R s3 mols 2 = (c2, s4)"
    by (cases "generar_conformacion_etkdg R s3 mols 2")
  from g1 k have k': "length cu < 3" by simp
  from g1 have kl: "length cu \<le> length mols"
    using length_generar_uff [of R s0 mols] by simp
  obtain res s5 where r: "iteraciones_bucle R M (descriptores_filtrados M) mols Map.empty s4 [0 ..< N] = Inr (res, s5)"
    and t: "\<forall>i\<in>set [0 ..< N]. \<exists>t. res i = Some t \<and> tabla_de_iteracion R M (descriptores_filtrados M) mols t"
    using iteraciones_bucle_Inr [of R M "descriptores_filtrados M" mols Map.empty s4 "[0 ..< N]"]
    by blast
  from t have t': "\<forall>it<N. \<exists>t. res it = Some t \<and> tabla_de_iteracion R M (descriptores_filtrados M) mols t"
    by simp
  from N have "1 < N" by simp
  with t' obtain t1 where "res 1 = Some t1" by blast
  then have b1: "buscar res 1 = Inr t1"
    by (simp add: buscar_def)
  have "\<forall>i\<in>set [0 ..< length cu]. \<exists>est. estadisticas_molecula P res [0 ..< N] i = Inr est"
  proof
    fix i assume "i \<in> set [0 ..< length cu]"
    with kl have "i < length mols" by simp
    from estadisticas_molecula_ok [OF t' this _ d] N
    show "\<exists>est. estadisticas_molecula P res [0 ..< N] i = Inr est" by simp
  qed
  from analisis_bucle_ok [OF this] obtain estd where
    a: "analisis_bucle P res [0 ..< N] Map.empty [0 ..< length cu] = Inr estd"
    by blast
  from analisis_bucle_Inr [OF a] k' have "estd 2 = None"
    by simp
  then have b2: "buscar estd 2 = Inl (KeyError (Entero 2))"
    by (simp add: buscar_def)
  from b1 have b1': "buscar res (Suc 0) = Inr t1" by simp
  show ?thesis
    unfolding pipeline_def by (simp add: Let_def c m g1 g2 g3 g4 r b1' a b2)
qed

lemma pipeline_al_menos_tres:
  assumes "pipeline R M P N s0 df = Inr out"
  shows "3 \<le> length (indices_moleculas out)"
proof -
  from pipeline_Inr [OF assms] obtain mols res estd where
    a: "analisis_bucle P res [0 ..< N] Map.empty [0 ..< length (fst (generar_conformacion_uff R s0 mols))] = Inr estd"
    and e: "estd 2 \<noteq> None"
    and o: "indices_moleculas out = [0 ..< length (fst (generar_conformacion_uff R s0 mols))]"
    by (metis salida.select_convs(1))
  from analisis_bucle_Inr [OF a] e have "2 \<in> set [0 ..< length (fst (generar_conformacion_uff R s0 mols))]"
    by force
  with o show ?thesis by simp
qed


lemma descriptores_filtrados_ej: "descriptores_filtrados mordred_ej = [''TPSA'']"
  by code_simp

lemma moleculas_ej:
  "columna df_ej ''SMILES'' = Inr [Texto ''CCO'', Texto ''CCCCCCC'', Texto ''CCCCC'', Texto ''CCCC'']"
  "moleculas_de rdkit_ej [Texto ''CCO'', Texto ''CCCCCCC'', Texto ''CCCCC'', Texto ''CCCC''] = Inr [3, 7, 5, 4]"
  "columna df_dos ''SMILES'' = Inr [Texto ''CCO'', Texto ''CCCCCCC'', Texto ''CCCCC'']"
  "moleculas_de rdkit_ej [Texto ''CCO'', Texto ''CCCCCCC'', Texto ''CCCCC''] = Inr [3, 7, 5]"
  by code_simp+

lemma pipeline_ej_completa:
  "(case pipeline rdkit_ej mordred_ej python_ej 2 0 df_ej of Inl e \<Rightarrow> False | Inr out \<Rightarrow> True)"
  by code_simp

text \<open>
  C10. For an input table whose SMILES column parses into the molecules \<open>mols\<close>: a run
  that completes has at least three molecules that passed the UFF check of the initial
  generation, and its molecule indices are counted from that list. With fewer than
  three the run returns no output; when there are at least two repetitions (the script
  has 50) and at least one descriptor, it stops at the lookup
  \<^verbatim>\<open>estadisticas_distribucion[2]\<close> with \<^verbatim>\<open>KeyError\<close>.
\<close>

theorem pipeline_tres_moleculas:
  assumes "columna df ''SMILES'' = Inr cells" and "moleculas_de R cells = Inr mols"
  shows "(\<forall>out. pipeline R M P N s0 df = Inr out \<longrightarrow>
            3 \<le> length (fst (generar_conformacion_uff R s0 mols))
            \<and> indices_moleculas out = [0 ..< length (fst (generar_conformacion_uff R s0 mols))])
    \<and> (length (fst (generar_conformacion_uff R s0 mols)) < 3 \<longrightarrow>
          (\<exists>e. pipeline R M P N s0 df = Inl e))
    \<and> (length (fst (generar_conformacion_uff R s0 mols)) < 3 \<and> 2 \<le> N
          \<and> descriptores_filtrados M \<noteq> [] \<longrightarrow>
          pipeline R M P N s0 df = Inl (KeyError (Entero 2)))
    \<and> (length (fst (generar_conformacion_uff R s0 mols)) < 3
          \<and> descriptores_filtrados M \<noteq> [] \<longrightarrow>
          script R M P s0 df = Inl (KeyError (Entero 2)))"
proof -
  have 1: "3 \<le> length (fst (generar_conformacion_uff R s0 mols))
            \<and> indices_moleculas out = [0 ..< length (fst (generar_conformacion_uff R s0 mols))]"
    if p: "pipeline R M P N s0 df = Inr out" for out
  proof -
    from pipeline_Inr [OF p] obtain cells' mols' where
      c: "columna df ''SMILES'' = Inr cells'" and m: "moleculas_de R cells' = Inr mols'"
      and o: "indices_moleculas out = [0 ..< length (fst (generar_conformacion_uff R s0 mols'))]"
      by (metis salida.select_convs(1))
    from c m assms have "mols' = mols" by simp
    with o pipeline_al_menos_tres [OF p] show ?thesis by simp
  qed
  have 2: "\<exists>e. pipeline R M P N s0 df = Inl e"
    if "length (fst (generar_conformacion_uff R s0 mols)) < 3"
  proof (cases "pipeline R M P N s0 df")
    case (Inl e)
    then show ?thesis by blast
  next
    case (Inr out)
    from 1 [OF this] that show ?thesis by simp
  qed
  have 3: "pipeline R M P N s0 df = Inl (KeyError (Entero 2))"
    if "length (fst (generar_conformacion_uff R s0 mols)) < 3" "2 \<le> N" "descriptores_filtrados M \<noteq> []"
    using pipeline_menos_de_tres [OF assms that] .
  have 4: "script R M P s0 df = Inl (KeyError (Entero 2))"
    if "length (fst (generar_conformacion_uff R s0 mols)) < 3" "descriptores_filtrados M \<noteq> []"
    unfolding script_def
    by (rule pipeline_menos_de_tres [OF assms that(1) _ that(2)]) (simp add: numero_iteraciones_script_def)
  from 1 2 3 4 show ?thesis by blast
qed

theorem pipeline_tres_moleculas_witness:
  "columna df_dos ''SMILES'' = Inr [Texto ''CCO'', Texto ''CCCCCCC'', Texto ''CCCCC'']
   \<and> moleculas_de rdkit_ej [Texto ''CCO'', Texto ''CCCCCCC'', Texto ''CCCCC''] = Inr [3, 7, 5]
   \<and> length (fst (generar_conformacion_uff rdkit_ej 0 [3, 7, 5])) < 3
   \<and> descriptores_filtrados mordred_ej \<noteq> []
   \<and> pipeline rdkit_ej mordred_ej python_ej 2 0 df_dos = Inl (KeyError (Entero 2))
   \<and> script rdkit_ej mordred_ej python_ej 0 df_dos = Inl (KeyError (Entero 2))
   \<and> (\<exists>out. pipeline rdkit_ej mordred_ej python_ej 2 0 df_ej = Inr out)
   \<and> 3 \<le> length (fst (generar_conformacion_uff rdkit_ej 0 [3, 7, 5, 4]))"
proof -
  have k: "length (fst (generar_conformacion_uff rdkit_ej 0 [3, 7, 5])) < 3"
    by code_simp
  have d: "descriptores_filtrados mordred_ej \<noteq> []"
    by (simp add: descriptores_filtrados_ej)
  note a = pipeline_tres_moleculas [OF moleculas_ej(3,4), of mordred_ej python_ej 2 0]
  from a k d have p: "pipeline rdkit_ej mordred_ej python_ej 2 0 df_dos = Inl (KeyError (Entero 2))"
    by simp
  from a k d have s: "script rdkit_ej mordred_ej python_ej 0 df_dos = Inl (KeyError (Entero 2))"
    by simp
  obtain out where o: "pipeline rdkit_ej mordred_ej python_ej 2 0 df_ej = Inr out"
    using pipeline_ej_completa by (cases "pipeline rdkit_ej mordred_ej python_ej 2 0 df_ej") simp_all
  note b = pipeline_tres_moleculas [OF moleculas_ej(1,2), of mordred_ej python_ej 2 0]
  from b o have t: "3 \<le> length (fst (generar_conformacion_uff rdkit_ej 0 [3, 7, 5, 4]))"
    by simp
  from o have e: "\<exists>out. pipeline rdkit_ej mordred_ej python_ej 2 0 df_ej = Inr out" ..
  show ?thesis
    by (intro conjI) (fact moleculas_ej(3) moleculas_ej(4) k d p s e t)+
qed

text \<open>
  C2 on an input of three molecules and two 3D descriptors, the first of which the
  engine cannot compute for the third molecule. The names are generated once, from the
  statistics of the second molecule: sixty names, five per descriptor column. The
  summary of the third molecule has no entry for the six columns that hold an error
  object, so its flattened row has thirty cells, all of the second descriptor; they
  stand under the first thirty names, those of the first descriptor among them, and
  the last thirty names, those of the second descriptor among them, get missing
  cells. When the molecule is the second of the table, the names are generated from
  its thirty cells, the other rows have sixty, and the assignment of the names raises.
\<close>

theorem fila_desalineada:
  "(case pipeline rdkit_ej mordred_err python_ej 2 0 df_tres of
      Inl e \<Rightarrow> None
    | Inr out \<Rightarrow>
        Some (length (nombres_finales out), take 10 (nombres_finales out),
              drop 55 (nombres_finales out),
              take 10 (filas (matriz_descriptores_estadisticos out) ! 1),
              filas (matriz_descriptores_estadisticos out) ! 2,
              drop 2 (filas (dataset_final out) ! 2))) =
   Some (60,
         [''minTPSA'', ''25%TPSA'', ''50%TPSA'', ''75%TPSA'', ''maxTPSA'',
          ''minPBF'', ''25%PBF'', ''50%PBF'', ''75%PBF'', ''maxPBF''],
         [''minPBF_DGmmff'', ''25%PBF_DGmmff'', ''50%PBF_DGmmff'', ''75%PBF_DGmmff'',
          ''maxPBF_DGmmff''],
         replicate 5 (Flotante 5) @ replicate 5 (Flotante 0),
         replicate 30 (Flotante 0) @ replicate 30 NaN,
         replicate 30 (Flotante 0) @ replicate 30 (Texto ''NA''))
   \<and> (case pipeline rdkit_ej mordred_err python_ej 2 0 df_tres_b of
         Inl e \<Rightarrow> Some e
       | Inr out \<Rightarrow> None) = Some ValueError"
  by code_simp

section \<open>Properties of the cleaning and of the exported table\<close>

lemma secuencia_Inr: "secuencia xs = Inr ys \<Longrightarrow> xs = map Inr ys"
proof (induction xs arbitrary: ys rule: secuencia.induct)
  case 1
  then show ?case by simp
next
  case (2 e resto)
  then show ?case by simp
next
  case (3 x resto)
  then show ?case by (auto split: sum.splits)
qed

lemma length_secuencia: "secuencia xs = Inr ys \<Longrightarrow> length ys = length xs"
  using secuencia_Inr [of xs ys] by auto

lemma seleccionar_fila:
  "map (\<lambda>(c, con_texto). if \<not> con_texto then Some c else None) (zip f (map contiene_letra f)) =
     map (\<lambda>c. if contiene_letra c then None else Some c) f"
  by (induction f) auto

lemma seleccionar_filas:
  "filas (seleccionar_no_texto t (mascara_texto t)) =
     map (map (\<lambda>c. if contiene_letra c then None else Some c)) (filas t)"
proof -
  have "map (\<lambda>(f, m). map (\<lambda>(c, con_texto). if \<not> con_texto then Some c else None) (zip f m))
          (zip fs (map (map contiene_letra) fs)) =
        map (map (\<lambda>c. if contiene_letra c then None else Some c)) fs" for fs
    by (induction fs) (simp_all add: seleccionar_fila)
  then show ?thesis
    by (simp add: seleccionar_no_texto_def mascara_texto_def mapa_tabla_def)
qed

lemma celda_despues:
  assumes "float_celda P (if contiene_letra (str_objeto P c) then None else Some (str_objeto P c)) = Inr y"
  shows "celda_limpia P c = Inr (case y of None \<Rightarrow> Texto ''NA'' | Some x \<Rightarrow> Flotante x)"
proof (cases "contiene_letra (str_objeto P c)")
  case True
  with assms show ?thesis
    by (simp add: float_celda_def celda_limpia_def)
next
  case False
  show ?thesis
  proof (cases "float_str P (str_objeto P c)")
    case None
    with False assms show ?thesis
      by (simp add: float_celda_def)
  next
    case (Some x)
    with False assms show ?thesis
      by (auto simp: float_celda_def celda_limpia_def)
  qed
qed

lemma limpiar_Inr:
  assumes "limpiar P t = Inr r"
  shows "columnas r = columnas t"
    and "length (filas r) = length (filas t)"
    and "\<forall>i<length (filas t). length (filas r ! i) = length (filas t ! i)
           \<and> (\<forall>j<length (filas t ! i). celda_limpia P (filas t ! i ! j) = Inr (filas r ! i ! j))"
proof -
  let ?sel = "seleccionar_no_texto (astype_str P t) (mascara_texto (astype_str P t))"
  from assms obtain n where n: "astype_float P ?sel = Inr n" and r: "r = fillna_NA n"
    by (auto simp: limpiar_def Let_def split: sum.splits)
  from n obtain fs where fs: "secuencia (map (\<lambda>f. secuencia (map (float_celda P) f)) (filas ?sel)) = Inr fs"
    and nn: "n = \<lparr> columnas = columnas ?sel, filas = fs \<rparr>"
    by (auto simp: astype_float_def split: sum.splits)
  have cs: "columnas ?sel = columnas t"
    by (simp add: seleccionar_no_texto_def astype_str_def mapa_tabla_def)
  have fsel: "filas ?sel = map (map (\<lambda>c. if contiene_letra (str_objeto P c) then None else Some (str_objeto P c))) (filas t)"
    unfolding seleccionar_filas by (simp add: astype_str_def mapa_tabla_def comp_def)
  show "columnas r = columnas t"
    by (simp add: r nn cs fillna_NA_def mapa_tabla_def)
  from length_secuencia [OF fs] have lf: "length fs = length (filas t)"
    by (simp add: fsel)
  then show "length (filas r) = length (filas t)"
    by (simp add: r nn fillna_NA_def mapa_tabla_def)
  show "\<forall>i<length (filas t). length (filas r ! i) = length (filas t ! i)
           \<and> (\<forall>j<length (filas t ! i). celda_limpia P (filas t ! i ! j) = Inr (filas r ! i ! j))"
  proof (intro allI impI)
    fix i assume i: "i < length (filas t)"
    from secuencia_Inr [OF fs] have "map (\<lambda>f. secuencia (map (float_celda P) f)) (filas ?sel) ! i = map Inr fs ! i"
      by simp
    with i lf have si: "secuencia (map (float_celda P)
        (map (\<lambda>c. if contiene_letra (str_objeto P c) then None else Some (str_objeto P c)) (filas t ! i))) = Inr (fs ! i)"
      by (simp add: fsel)
    from length_secuencia [OF si] have li: "length (fs ! i) = length (filas t ! i)"
      by simp
    have ri: "filas r ! i = map (\<lambda>c. case c of None \<Rightarrow> Texto ''NA'' | Some x \<Rightarrow> Flotante x) (fs ! i)"
      using i lf by (simp add: r nn fillna_NA_def mapa_tabla_def)
    have "celda_limpia P (filas t ! i ! j) = Inr (filas r ! i ! j)" if j: "j < length (filas t ! i)" for j
    proof -
      from secuencia_Inr [OF si] have "map (float_celda P)
        (map (\<lambda>c. if contiene_letra (str_objeto P c) then None else Some (str_objeto P c)) (filas t ! i)) ! j
          = map Inr (fs ! i) ! j"
        by simp
      with j li have "float_celda P (if contiene_letra (str_objeto P (filas t ! i ! j)) then None
          else Some (str_objeto P (filas t ! i ! j))) = Inr (fs ! i ! j)"
        by simp
      from celda_despues [OF this] show ?thesis
        using j li by (simp add: ri)
    qed
    with li ri show "length (filas r ! i) = length (filas t ! i)
           \<and> (\<forall>j<length (filas t ! i). celda_limpia P (filas t ! i ! j) = Inr (filas r ! i ! j))"
      by simp
  qed
qed

lemma celda_limpia_no_NaN:
  "celda_limpia P c = Inr y \<Longrightarrow> y = Texto ''NA'' \<or> (\<exists>x. y = Flotante x)"
  by (auto simp: celda_limpia_def split: if_splits option.splits)

lemma length_columna: "columna t n = Inr cs \<Longrightarrow> length cs = length (filas t)"
  by (auto simp: columna_def columna_numero_def split: option.splits)

lemma length_moleculas_de: "moleculas_de R cs = Inr ms \<Longrightarrow> length ms = length cs"
  using length_secuencia [of "map (molecula_de R) cs" ms] by (simp add: moleculas_de_def)

lemma celda_limpia_NaN: "celda_limpia P NaN = Inr (Texto ''NA'')"
  by (simp add: celda_limpia_def str_objeto_def contiene_letra_def letras_def)

lemma filas_concat_iguales:
  assumes "length (filas a) = length (filas b)" and "i < length (filas a)"
  shows "filas (concat_columnas n a b) ! i = filas a ! i @ filas b ! i"
  using assms by (simp add: concat_columnas_def fila_o_faltante_def)

lemma length_anexar_fila: "length (anexar_fila m f) = Suc (length m)"
  by (simp add: anexar_fila_def Let_def)

lemma length_matriz_bucle:
  "matriz_bucle P res its acc is = Inr m \<Longrightarrow> length m = length acc + length is"
proof (induction "is" arbitrary: acc)
  case Nil
  then show ?case by simp
next
  case (Cons i "is")
  from Cons.prems obtain est where e: "estadisticas_molecula P res its i = Inr est"
    by (auto split: sum.splits)
  with Cons.prems have "matriz_bucle P res its (anexar_fila acc (fila_estadisticas est)) is = Inr m"
    by simp
  from Cons.IH [OF this] show ?case
    by (simp add: length_anexar_fila)
qed

text \<open>
  C5, as the code has it. In a run that completes, \<^verbatim>\<open>fillna("NA")\<close> is applied to the
  matrix of descriptors (the 2D descriptors and the 3D statistics) before the columns of
  the input table are put in front of it. The matrix has one row per row of the input
  table; each of its cells is a float or the marker \<^verbatim>\<open>NA\<close>, and a cell that was missing
  in the combined matrix, also one left missing by a dropped conformer, is \<^verbatim>\<open>NA\<close>. The
  cells of the input columns are copied as they are.
\<close>

theorem faltantes_como_NA:
  assumes p: "pipeline R M P N s0 df = Inr out"
  shows "dataset_final out = concat_columnas NaN df (matriz_numerica out)
     \<and> columnas (dataset_final out) = columnas df @ descriptores_2d M @ nombres_finales out
     \<and> length (filas (matriz_completa_descriptores out)) = length (filas df)
     \<and> length (filas (matriz_numerica out)) = length (filas df)
     \<and> length (filas (dataset_final out)) = length (filas df)
     \<and> (\<forall>i<length (filas df).
          filas (dataset_final out) ! i = filas df ! i @ filas (matriz_numerica out) ! i
          \<and> length (filas (matriz_numerica out) ! i) = length (filas (matriz_completa_descriptores out) ! i)
          \<and> (\<forall>j<length (filas (matriz_numerica out) ! i).
                (filas (matriz_numerica out) ! i ! j = Texto ''NA''
                   \<or> (\<exists>x. filas (matriz_numerica out) ! i ! j = Flotante x))
                \<and> (filas (matriz_completa_descriptores out) ! i ! j = NaN \<longrightarrow>
                      filas (matriz_numerica out) ! i ! j = Texto ''NA'')))"
proof -
  from pipeline_Inr [OF p] obtain cells mols s4 res s5 muestra matriz numerica where
    c: "columna df ''SMILES'' = Inr cells"
    and m: "moleculas_de R cells = Inr mols"
    and r: "iteraciones_bucle R M (descriptores_filtrados M) mols Map.empty s4 [0 ..< N] = Inr (res, s5)"
    and mb: "matriz_bucle P res [0 ..< N] [] [0 ..< length (fst (generar_conformacion_uff R s0 mols))] = Inr matriz"
    and l: "limpiar P (concat_columnas NaN (pandas_2d M mols)
        \<lparr> columnas = nombres_columnas_finales muestra, filas = matriz \<rparr>) = Inr numerica"
    and o3: "nombres_finales out = nombres_columnas_finales muestra"
    and o5: "matriz_completa_descriptores out = concat_columnas NaN (pandas_2d M mols)
        \<lparr> columnas = nombres_columnas_finales muestra, filas = matriz \<rparr>"
    and o6: "matriz_numerica out = numerica"
    and o7: "dataset_final out = concat_columnas NaN df numerica"
    by (metis salida.select_convs(3,5,6,7))
  have n: "length mols = length (filas df)"
    using length_columna [OF c] length_moleculas_de [OF m] by simp
  have lm: "length matriz \<le> length mols"
    using length_matriz_bucle [OF mb] length_generar_uff [of R s0 mols] by simp
  let ?completa = "concat_columnas NaN (pandas_2d M mols)
        \<lparr> columnas = nombres_columnas_finales muestra, filas = matriz \<rparr>"
  have lc: "length (filas ?completa) = length (filas df)"
    using lm n by (simp add: pandas_2d_def mapa_tabla_def)
  note li = limpiar_Inr [OF l]
  have ln: "length (filas numerica) = length (filas df)"
    using li(2) lc by simp
  have c1: "dataset_final out = concat_columnas NaN df (matriz_numerica out)"
    by (simp add: o6 o7)
  have c2: "columnas (dataset_final out) = columnas df @ descriptores_2d M @ nombres_finales out"
    by (simp add: o7 o3 li(1) pandas_2d_def mapa_tabla_def)
  have c3: "length (filas (matriz_completa_descriptores out)) = length (filas df)"
    by (simp only: o5 lc)
  have c4: "length (filas (matriz_numerica out)) = length (filas df)"
    by (simp only: o6 ln)
  have c5: "length (filas (dataset_final out)) = length (filas df)"
    by (simp add: o7 ln)
  have c6: "filas (dataset_final out) ! i = filas df ! i @ filas (matriz_numerica out) ! i
          \<and> length (filas (matriz_numerica out) ! i) = length (filas (matriz_completa_descriptores out) ! i)
          \<and> (\<forall>j<length (filas (matriz_numerica out) ! i).
                (filas (matriz_numerica out) ! i ! j = Texto ''NA''
                   \<or> (\<exists>x. filas (matriz_numerica out) ! i ! j = Flotante x))
                \<and> (filas (matriz_completa_descriptores out) ! i ! j = NaN \<longrightarrow>
                      filas (matriz_numerica out) ! i ! j = Texto ''NA''))"
    if i: "i < length (filas df)" for i
  proof -
    from i lc have ic: "i < length (filas ?completa)" by simp
    with li(3) have le: "length (filas numerica ! i) = length (filas ?completa ! i)"
      and ce: "\<forall>j<length (filas ?completa ! i). celda_limpia P (filas ?completa ! i ! j) = Inr (filas numerica ! i ! j)"
      by blast+
    have a: "filas (dataset_final out) ! i = filas df ! i @ filas (matriz_numerica out) ! i"
      unfolding o7 o6 using filas_concat_iguales [of df numerica i NaN] ln i by simp
    have b: "(filas numerica ! i ! j = Texto ''NA'' \<or> (\<exists>x. filas numerica ! i ! j = Flotante x))
                \<and> (filas ?completa ! i ! j = NaN \<longrightarrow> filas numerica ! i ! j = Texto ''NA'')"
      if "j < length (filas numerica ! i)" for j
    proof -
      from that le ce have e: "celda_limpia P (filas ?completa ! i ! j) = Inr (filas numerica ! i ! j)"
        by simp
      from celda_limpia_no_NaN [OF e] have 1: "filas numerica ! i ! j = Texto ''NA''
          \<or> (\<exists>x. filas numerica ! i ! j = Flotante x)" .
      have 2: "filas numerica ! i ! j = Texto ''NA''" if "filas ?completa ! i ! j = NaN"
        using e that by (simp add: celda_limpia_NaN)
      from 1 2 show ?thesis by blast
    qed
    from a le b show ?thesis
      by (simp only: o5 o6) blast
  qed
  from c1 c2 c3 c4 c5 c6 show ?thesis by blast
qed

lemma completa_ej:
  "(case pipeline rdkit_ej mordred_ej python_ej 2 0 df_ej of
      Inl e \<Rightarrow> None
    | Inr out \<Rightarrow> Some (filas (matriz_completa_descriptores out) ! 3)) =
   Some (Flotante 4 # Texto ''True'' # replicate 30 NaN)"
  by code_simp

theorem faltantes_como_NA_witness:
  "\<exists>out. pipeline rdkit_ej mordred_ej python_ej 2 0 df_ej = Inr out
     \<and> length (filas (dataset_final out)) = 4
     \<and> filas (dataset_final out) ! 3 = filas df_ej ! 3 @ filas (matriz_numerica out) ! 3
     \<and> filas (matriz_completa_descriptores out) ! 3 ! 2 = NaN
     \<and> filas (matriz_numerica out) ! 3 ! 2 = Texto ''NA''"
proof -
  obtain out where o: "pipeline rdkit_ej mordred_ej python_ej 2 0 df_ej = Inr out"
    using pipeline_ej_completa by (cases "pipeline rdkit_ej mordred_ej python_ej 2 0 df_ej") simp_all
  note th = faltantes_como_NA [OF o]
  note c5 = th [THEN conjunct2, THEN conjunct2, THEN conjunct2, THEN conjunct2, THEN conjunct1]
  note c6 = th [THEN conjunct2, THEN conjunct2, THEN conjunct2, THEN conjunct2, THEN conjunct2]
  have n: "length (filas df_ej) = 4"
    by (simp add: df_ej_def)
  from c5 n have l: "length (filas (dataset_final out)) = 4"
    by simp
  from completa_ej o have f: "filas (matriz_completa_descriptores out) ! 3 = Flotante 4 # Texto ''True'' # replicate 30 NaN"
    by simp
  then have x: "filas (matriz_completa_descriptores out) ! 3 ! 2 = NaN"
    by simp
  have "3 < length (filas df_ej)"
    by (simp add: n)
  with c6 have a: "filas (dataset_final out) ! 3 = filas df_ej ! 3 @ filas (matriz_numerica out) ! 3"
    and b: "length (filas (matriz_numerica out) ! 3) = length (filas (matriz_completa_descriptores out) ! 3)"
    and c: "\<forall>j<length (filas (matriz_numerica out) ! 3).
                (filas (matriz_numerica out) ! 3 ! j = Texto ''NA''
                   \<or> (\<exists>x. filas (matriz_numerica out) ! 3 ! j = Flotante x))
                \<and> (filas (matriz_completa_descriptores out) ! 3 ! j = NaN \<longrightarrow>
                      filas (matriz_numerica out) ! 3 ! j = Texto ''NA'')"
    by blast+
  from b f have "2 < length (filas (matriz_numerica out) ! 3)"
    by simp
  with c x have y: "filas (matriz_numerica out) ! 3 ! 2 = Texto ''NA''"
    by blast
  show ?thesis
    by (intro exI [of _ out] conjI) (fact o l a x y)+
qed

text \<open>
  The claim C5 as stated fails for the input columns: the note of the second molecule
  is missing in the input table and is still a missing value, not the marker, in
  the exported table.
\<close>

theorem faltante_sin_marcar:
  "(case pipeline rdkit_ej mordred_ej python_ej 2 0 df_ej of
      Inl e \<Rightarrow> None
    | Inr out \<Rightarrow> Some (columnas (dataset_final out) ! 1, filas (dataset_final out) ! 1 ! 1)) =
   Some (''nota'', NaN)"
  by code_simp

text \<open>
  C4 on an input of four molecules, the second of which lacks UFF parameters. The
  exported table has four rows, but the molecule indices are counted from the list of
  UFF conformers: the matrix of 3D statistics has three rows, the fourth molecule gets
  the marker \<^verbatim>\<open>NA\<close> in all thirty 3D columns although conformers were generated for it by
  the other methods, and the UFF columns of the second row hold the values of the third
  molecule (5, where its other columns hold 7).
\<close>

theorem filas_por_conformaciones_uff:
  "(case pipeline rdkit_ej mordred_ej python_ej 2 0 df_ej of
      Inl e \<Rightarrow> None
    | Inr out \<Rightarrow>
        Some (length (filas df_ej), length (filas (dataset_final out)), indices_moleculas out,
              length (filas (matriz_descriptores_estadisticos out)),
              drop 4 (filas (dataset_final out) ! 3),
              take 5 (drop 4 (filas (dataset_final out) ! 1)),
              take 5 (drop 24 (filas (dataset_final out) ! 1)))) =
   Some (4, 4, [0, 1, 2], 3, replicate 30 (Texto ''NA''),
         replicate 5 (Flotante 7), replicate 5 (Flotante 5))"
  by code_simp

text \<open>
  C3 on a matrix with one cell of text. Indexing with the negated mask blanks that
  cell only: its column and its row both stay in the numeric output.
\<close>

theorem limpiar_solo_la_celda:
  "limpiar python_ej \<lparr> columnas = [''nAtom'', ''ABC''],
       filas = [[Flotante 3, Texto ''error''], [Flotante 7, Flotante 4]] \<rparr> =
     Inr \<lparr> columnas = [''nAtom'', ''ABC''],
           filas = [[Flotante 3, Texto ''NA''], [Flotante 7, Flotante 4]] \<rparr>"
  by code_simp


end
